theory Spec2Isabelle
  imports Complex_Main
begin

section \<open>Fixed-size vectors and matrices\<close>

text \<open>
  The source works on Eigen's fixed-size types \<^verbatim>\<open>Vector3\<close>, \<^verbatim>\<open>Matrix3\<close>, \<^verbatim>\<open>Vector9\<close>,
  \<^verbatim>\<open>Matrix9\<close> and \<^verbatim>\<open>Matrix93\<close> over \<^verbatim>\<open>double\<close>. A vector is modelled as its
  coefficient function and a matrix as its entry function, over a finite index type.
  \<^verbatim>\<open>double\<close> is idealised as \<^typ>\<open>real\<close>: rounding, infinities and NaN are outside
  the model, so every statement below is about the arithmetic the source writes down,
  carried out exactly.

  The source only ever addresses a 9-vector through its three segments
  \<^verbatim>\<open>segment<3>(0)\<close>, \<^verbatim>\<open>segment<3>(3)\<close>, \<^verbatim>\<open>segment<3>(6)\<close> and a 9-row matrix through
  its 3x3 blocks \<^verbatim>\<open>block<3,3>(r, c)\<close> with \<open>r, c \<in> {0, 3, 6}\<close>. An index into a 9-vector is
  therefore a pair of a segment offset and an index inside the segment.
\<close>

datatype axis = X | Y | Z

datatype seg = Seg0 | Seg3 | Seg6

type_synonym idx9 = "seg \<times> axis"

instantiation axis :: enum
begin
definition "enum_class.enum = [X, Y, Z]"
definition "enum_class.enum_all P \<longleftrightarrow> P X \<and> P Y \<and> P Z"
definition "enum_class.enum_ex P \<longleftrightarrow> P X \<or> P Y \<or> P Z"
instance
proof
  show "(UNIV :: axis set) = set enum_class.enum"
    by (auto simp: enum_axis_def intro: axis.exhaust)
  show "distinct (enum_class.enum :: axis list)"
    by (simp add: enum_axis_def)
  show "enum_class.enum_all P = Ball (UNIV :: axis set) P" for P
    by (auto simp: enum_all_axis_def) (metis axis.exhaust)
  show "enum_class.enum_ex P = Bex (UNIV :: axis set) P" for P
    by (auto simp: enum_ex_axis_def) (metis axis.exhaust)
qed
end

instantiation seg :: enum
begin
definition "enum_class.enum = [Seg0, Seg3, Seg6]"
definition "enum_class.enum_all P \<longleftrightarrow> P Seg0 \<and> P Seg3 \<and> P Seg6"
definition "enum_class.enum_ex P \<longleftrightarrow> P Seg0 \<or> P Seg3 \<or> P Seg6"
instance
proof
  show "(UNIV :: seg set) = set enum_class.enum"
    by (auto simp: enum_seg_def intro: seg.exhaust)
  show "distinct (enum_class.enum :: seg list)"
    by (simp add: enum_seg_def)
  show "enum_class.enum_all P = Ball (UNIV :: seg set) P" for P
    by (auto simp: enum_all_seg_def) (metis seg.exhaust)
  show "enum_class.enum_ex P = Bex (UNIV :: seg set) P" for P
    by (auto simp: enum_ex_seg_def) (metis seg.exhaust)
qed
end

datatype 'n vec = Vec (coeff: "'n \<Rightarrow> real")

datatype ('m, 'n) mat = Mat (entry: "'m \<Rightarrow> 'n \<Rightarrow> real")

type_synonym Vector3 = "axis vec"
type_synonym Matrix3 = "(axis, axis) mat"
type_synonym Vector9 = "idx9 vec"
type_synonym Matrix9 = "(idx9, idx9) mat"
type_synonym Matrix93 = "(idx9, axis) mat"

text \<open>Coefficient-wise sum, difference, negation and product with a scalar.\<close>

instantiation vec :: (type) ab_group_add
begin
definition "(0 :: 'a vec) = Vec (\<lambda>i. 0)"
definition "u + v = Vec (\<lambda>i. coeff u i + coeff v i)" for u v :: "'a vec"
definition "u - v = Vec (\<lambda>i. coeff u i - coeff v i)" for u v :: "'a vec"
definition "- u = Vec (\<lambda>i. - coeff u i)" for u :: "'a vec"
instance
  by standard
    (simp_all add: zero_vec_def plus_vec_def minus_vec_def uminus_vec_def algebra_simps)
end

instantiation vec :: (type) real_vector
begin
definition "r *\<^sub>R u = Vec (\<lambda>i. r * coeff u i)" for u :: "'a vec"
instance
  by standard (simp_all add: scaleR_vec_def plus_vec_def algebra_simps)
end

instantiation mat :: (type, type) ab_group_add
begin
definition "(0 :: ('a, 'b) mat) = Mat (\<lambda>i j. 0)"
definition "A + B = Mat (\<lambda>i j. entry A i j + entry B i j)" for A B :: "('a, 'b) mat"
definition "A - B = Mat (\<lambda>i j. entry A i j - entry B i j)" for A B :: "('a, 'b) mat"
definition "- A = Mat (\<lambda>i j. - entry A i j)" for A :: "('a, 'b) mat"
instance
  by standard
    (simp_all add: zero_mat_def plus_mat_def minus_mat_def uminus_mat_def algebra_simps)
end

instantiation mat :: (type, type) real_vector
begin
definition "r *\<^sub>R A = Mat (\<lambda>i j. r * entry A i j)" for A :: "('a, 'b) mat"
instance
  by standard (simp_all add: scaleR_mat_def plus_mat_def algebra_simps)
end

text \<open>
  Eigen's products \<^verbatim>\<open>A * B\<close> (matrix by matrix) and \<^verbatim>\<open>A * x\<close> (matrix by vector),
  \<^verbatim>\<open>A.transpose()\<close>, the identity (\<^verbatim>\<open>I_3x3\<close>, \<^verbatim>\<open>setIdentity()\<close>) and the inner product.
\<close>

definition mm :: "('m, 'k) mat \<Rightarrow> ('k, 'n) mat \<Rightarrow> ('m, 'n) mat" where
  "mm A B = Mat (\<lambda>i j. \<Sum>k\<in>UNIV. entry A i k * entry B k j)"

definition mv :: "('m, 'n) mat \<Rightarrow> 'n vec \<Rightarrow> 'm vec" where
  "mv A x = Vec (\<lambda>i. \<Sum>k\<in>UNIV. entry A i k * coeff x k)"

definition transpose_mat :: "('m, 'n) mat \<Rightarrow> ('n, 'm) mat" where
  "transpose_mat A = Mat (\<lambda>i j. entry A j i)"

definition Identity :: "('n, 'n) mat" where
  "Identity = Mat (\<lambda>i j. if i = j then 1 else 0)"

definition dot :: "'n vec \<Rightarrow> 'n vec \<Rightarrow> real" where
  "dot x y = (\<Sum>i\<in>UNIV. coeff x i * coeff y i)"

definition I_3x3 :: Matrix3 where
  "I_3x3 = Identity"

definition Z_3x3 :: Matrix3 where
  "Z_3x3 = 0"

text \<open>
  Eigen's comma initialisers: \<^verbatim>\<open>Vector3(x, y, z)\<close>, a 3x3 matrix from nine scalars in
  row-major order, a 9x3 matrix from three 3x3 blocks stacked top to bottom, a 9x9 matrix
  from nine 3x3 blocks in row-major order, and a 9-vector from its three segments.
\<close>

definition Vector3_of :: "real \<Rightarrow> real \<Rightarrow> real \<Rightarrow> Vector3" where
  "Vector3_of x y z = Vec (\<lambda>i. case i of X \<Rightarrow> x | Y \<Rightarrow> y | Z \<Rightarrow> z)"

definition Matrix3_of ::
  "real \<Rightarrow> real \<Rightarrow> real \<Rightarrow> real \<Rightarrow> real \<Rightarrow> real \<Rightarrow> real \<Rightarrow> real \<Rightarrow> real \<Rightarrow> Matrix3" where
  "Matrix3_of a b c d e f g h l =
     Mat (\<lambda>i j. case i of
        X \<Rightarrow> (case j of X \<Rightarrow> a | Y \<Rightarrow> b | Z \<Rightarrow> c)
      | Y \<Rightarrow> (case j of X \<Rightarrow> d | Y \<Rightarrow> e | Z \<Rightarrow> f)
      | Z \<Rightarrow> (case j of X \<Rightarrow> g | Y \<Rightarrow> h | Z \<Rightarrow> l))"

definition Matrix93_of :: "Matrix3 \<Rightarrow> Matrix3 \<Rightarrow> Matrix3 \<Rightarrow> Matrix93" where
  "Matrix93_of B0 B3 B6 =
     Mat (\<lambda>(s, i) j. entry (case s of Seg0 \<Rightarrow> B0 | Seg3 \<Rightarrow> B3 | Seg6 \<Rightarrow> B6) i j)"

definition Matrix9_of ::
  "Matrix3 \<Rightarrow> Matrix3 \<Rightarrow> Matrix3 \<Rightarrow> Matrix3 \<Rightarrow> Matrix3 \<Rightarrow> Matrix3 \<Rightarrow> Matrix3 \<Rightarrow> Matrix3 \<Rightarrow> Matrix3
     \<Rightarrow> Matrix9" where
  "Matrix9_of B00 B03 B06 B30 B33 B36 B60 B63 B66 =
     Mat (\<lambda>(s, i) (t, j). entry (case s of
        Seg0 \<Rightarrow> (case t of Seg0 \<Rightarrow> B00 | Seg3 \<Rightarrow> B03 | Seg6 \<Rightarrow> B06)
      | Seg3 \<Rightarrow> (case t of Seg0 \<Rightarrow> B30 | Seg3 \<Rightarrow> B33 | Seg6 \<Rightarrow> B36)
      | Seg6 \<Rightarrow> (case t of Seg0 \<Rightarrow> B60 | Seg3 \<Rightarrow> B63 | Seg6 \<Rightarrow> B66)) i j)"

definition Vector9_of :: "Vector3 \<Rightarrow> Vector3 \<Rightarrow> Vector3 \<Rightarrow> Vector9" where
  "Vector9_of r p v =
     Vec (\<lambda>(s, i). coeff (case s of Seg0 \<Rightarrow> r | Seg3 \<Rightarrow> p | Seg6 \<Rightarrow> v) i)"

text \<open>
  Reading and writing a segment \<^verbatim>\<open>v.segment<3>(s)\<close> of a 9-vector and a block
  \<^verbatim>\<open>A.block<3,3>(r, c)\<close> of a 9x9 matrix, and the rows \<open>r .. r+2\<close> of a 9x3 matrix.
\<close>

definition segment :: "seg \<Rightarrow> Vector9 \<Rightarrow> Vector3" where
  "segment s v = Vec (\<lambda>i. coeff v (s, i))"

definition set_segment :: "seg \<Rightarrow> Vector3 \<Rightarrow> Vector9 \<Rightarrow> Vector9" where
  "set_segment s u v = Vec (\<lambda>(t, i). if t = s then coeff u i else coeff v (t, i))"

definition block :: "seg \<Rightarrow> seg \<Rightarrow> Matrix9 \<Rightarrow> Matrix3" where
  "block r c A = Mat (\<lambda>i j. entry A (r, i) (c, j))"

definition set_block :: "seg \<Rightarrow> seg \<Rightarrow> Matrix3 \<Rightarrow> Matrix9 \<Rightarrow> Matrix9" where
  "set_block r c M A =
     Mat (\<lambda>(s, i) (t, j). if s = r \<and> t = c then entry M i j else entry A (s, i) (t, j))"

definition rows :: "seg \<Rightarrow> Matrix93 \<Rightarrow> Matrix3" where
  "rows r B = Mat (\<lambda>i j. entry B (r, i) j)"

text \<open>The tangent space sugar of the source (namespace \<^verbatim>\<open>sugar\<close>).\<close>

definition dR :: "Vector9 \<Rightarrow> Vector3" where
  "dR v = segment Seg0 v"

definition dP :: "Vector9 \<Rightarrow> Vector3" where
  "dP v = segment Seg3 v"

definition dV :: "Vector9 \<Rightarrow> Vector3" where
  "dV v = segment Seg6 v"

text \<open>
  Modelled from the spec: \<^verbatim>\<open>skewSymmetric\<close> of \<^verbatim>\<open>gtsam/base/Matrix.h\<close>, which is not among
  the sources. The spec calls its result "the skew-symmetric matrix of" a 3-vector: the
  matrix of the cross product with that vector.
\<close>

definition skewSymmetric :: "Vector3 \<Rightarrow> Matrix3" where
  "skewSymmetric w =
     (let wx = coeff w X; wy = coeff w Y; wz = coeff w Z
      in Matrix3_of 0 (- wz) wy
                    wz 0 (- wx)
                    (- wy) wx 0)"

section \<open>Data model\<close>

text \<open>
  \<^verbatim>\<open>Params\<close> (shared, read-only), the bias \<^verbatim>\<open>imuBias::ConstantBias\<close> and \<^verbatim>\<open>NavState\<close>
  are declared outside the sources; only the members the source reads are modelled.
  A \<^verbatim>\<open>Rot3\<close> is modelled by its rotation matrix, so that \<^verbatim>\<open>Rot3::matrix()\<close> and the
  construction of a \<^verbatim>\<open>Rot3\<close> from a \<^verbatim>\<open>Matrix3\<close> are the identity.
\<close>

type_synonym Rot3 = Matrix3

record Params =
  accelerometerCovariance :: Matrix3
  gyroscopeCovariance :: Matrix3
  n_gravity :: Vector3

record Bias =
  accelerometer :: Vector3
  gyroscope :: Vector3

record NavState =
  attitude :: Rot3
  position :: Vector3
  velocity :: Vector3

text \<open>
  Modelled from the spec: the Gaussian noise model (\<^verbatim>\<open>noiseModel::Gaussian\<close>, not among the
  sources). The spec treats it as a "Gaussian covariance representation" behind an
  interface exposing \<^verbatim>\<open>covariance()\<close>: the factory \<^verbatim>\<open>Gaussian::Covariance(S, smart)\<close> builds
  the model of the covariance \<open>S\<close>, and \<^verbatim>\<open>covariance()\<close> gives \<open>S\<close> back.
\<close>

datatype 'n Gaussian = Gaussian (covariance: "('n, 'n) mat")

definition Gaussian_Covariance :: "('n, 'n) mat \<Rightarrow> bool \<Rightarrow> 'n Gaussian" where
  "Gaussian_Covariance S smart = Gaussian S"

text \<open>
  The class \<^verbatim>\<open>AggregateImuReadings\<close>. Its members \<^verbatim>\<open>p_\<close>, \<^verbatim>\<open>k_\<close>, \<^verbatim>\<open>zeta_\<close>, ... end in an
  underscore in the source, which an Isabelle name cannot; the underscore is written
  \<open>_m\<close> here. The spec's names are \<open>count\<close> for \<^verbatim>\<open>k_\<close> and \<open>elapsed\<close> for \<^verbatim>\<open>deltaTij_\<close>.
  The counter's C++ type is declared in the header, which is not among the sources; the
  spec calls it a non-negative integer.
\<close>

record AggregateImuReadings =
  p_m :: Params
  accelerometerNoiseModel_m :: "axis Gaussian"
  gyroscopeNoiseModel_m :: "axis Gaussian"
  estimatedBias_m :: Bias
  k_m :: nat
  deltaTij_m :: real
  zeta_m :: Vector9
  cov_m :: Matrix9

text \<open>
  What the source takes from outside its own file: the exponential map of the rotation
  group with its derivative (\<^verbatim>\<open>Rot3::Expmap(v, H)\<close>, giving the rotation and writing the
  derivative to \<open>H\<close>), the rotation action with its two derivatives
  (\<^verbatim>\<open>Rot3::rotate(p, H1, H2)\<close>), Eigen's \<^verbatim>\<open>Matrix3::inverse()\<close> and \<^verbatim>\<open>NavState::retract\<close>.
  The spec uses them "as a black box"; they are parameters of the model, and every
  theorem that quantifies over \<open>E\<close> holds whatever they compute. As a HOL function the
  inverse gives a real matrix for every argument, also for a singular one, where the
  source divides by a zero determinant; a statement that needs the value of the inverse
  is made where the determinant is not zero, or leaves that value open. The last field is the
  indeterminate content of the two local matrices \<^verbatim>\<open>D_Radt_R\<close>, \<^verbatim>\<open>D_Radt_adt\<close> of
  \<^verbatim>\<open>UpdateEstimate\<close>, which the source declares without initialising them.
\<close>

record external =
  Rot3_Expmap :: "Vector3 \<Rightarrow> Rot3 \<times> Matrix3"
  Rot3_rotate :: "Rot3 \<Rightarrow> Vector3 \<Rightarrow> Vector3 \<times> Matrix3 \<times> Matrix3"
  Matrix3_inverse :: "Matrix3 \<Rightarrow> Matrix3"
  NavState_retract :: "NavState \<Rightarrow> Vector9 \<Rightarrow> NavState"
  uninitialized :: "Matrix3 \<times> Matrix3"

section \<open>The operations of the source\<close>

text \<open>The constructor (source lines 25 to 37).\<close>

definition AggregateImuReadings_init :: "Params \<Rightarrow> Bias \<Rightarrow> AggregateImuReadings" where
  "AggregateImuReadings_init p estimatedBias =
     \<lparr>p_m = p,
      accelerometerNoiseModel_m = Gaussian_Covariance (accelerometerCovariance p) True,
      gyroscopeNoiseModel_m = Gaussian_Covariance (gyroscopeCovariance p) True,
      estimatedBias_m = estimatedBias,
      k_m = 0,
      deltaTij_m = 0,
      zeta_m = 0,
      cov_m = 0\<rparr>"

text \<open>
  \<^verbatim>\<open>UpdateEstimate\<close> (source lines 53 to 93). The three \<^verbatim>\<open>OptionalJacobian\<close> arguments are
  modelled by a flag each (is the output slot present?) and an optional result each
  (what is written to the slot). \<^verbatim>\<open>Rot3::rotate\<close> writes its derivatives only where
  \<^verbatim>\<open>A\<close> is present (line 68); otherwise the two local matrices keep their indeterminate
  content. The three segment assignments of lines 72 to 74 write all nine coefficients
  of the local \<^verbatim>\<open>zeta_plus\<close>. The block of lines 76 to 88 is \<open>UpdateEstimate_A\<close>.
\<close>

definition UpdateEstimate_A :: "Matrix3 \<Rightarrow> Matrix3 \<Rightarrow> Vector3 \<Rightarrow> real \<Rightarrow> real \<Rightarrow> Matrix9" where
  "UpdateEstimate_A D_Radt_R D_R_theta w_dt dt dt2 =
     (let D_Radt_theta = mm D_Radt_R D_R_theta;
          D_invHwdt_theta = skewSymmetric ((- 0.5) *\<^sub>R w_dt);
          A0 = Identity;
          A1 = set_block Seg0 Seg0 (block Seg0 Seg0 A0 + D_invHwdt_theta) A0;
          A2 = set_block Seg3 Seg0 (dt2 *\<^sub>R D_Radt_theta) A1;
          A3 = set_block Seg3 Seg6 (dt *\<^sub>R I_3x3) A2;
          A4 = set_block Seg6 Seg0 D_Radt_theta A3
      in A4)"

definition UpdateEstimate ::
  "external \<Rightarrow> Vector9 \<Rightarrow> Vector3 \<Rightarrow> Vector3 \<Rightarrow> real \<Rightarrow> bool \<Rightarrow> bool \<Rightarrow> bool
     \<Rightarrow> Vector9 \<times> Matrix9 option \<times> Matrix93 option \<times> Matrix93 option" where
  "UpdateEstimate E zeta correctedAcc correctedOmega dt A Ba Bw =
     (let a_dt = dt *\<^sub>R correctedAcc;
          w_dt = dt *\<^sub>R correctedOmega;
          (R, D_R_theta) = Rot3_Expmap E (dR zeta);
          invH = Matrix3_inverse E D_R_theta;
          (Radt, H1, H2) = Rot3_rotate E R a_dt;
          D_Radt_R = (if A then H1 else fst (uninitialized E));
          D_Radt_adt = (if A then H2 else snd (uninitialized E));
          dt2 = 0.5 * dt;
          zeta_plus = Vector9_of (dR zeta + mv invH w_dt)
                                 (dP zeta + dt *\<^sub>R dV zeta + dt2 *\<^sub>R Radt)
                                 (dV zeta + Radt)
      in (zeta_plus,
          (if A then Some (UpdateEstimate_A D_Radt_R D_R_theta w_dt dt dt2) else None),
          (if Ba then Some (Matrix93_of Z_3x3 (dt2 *\<^sub>R (dt *\<^sub>R D_Radt_adt)) (dt *\<^sub>R D_Radt_adt))
           else None),
          (if Bw then Some (Matrix93_of (dt *\<^sub>R invH) Z_3x3 Z_3x3) else None)))"

text \<open>
  \<^verbatim>\<open>integrateMeasurement\<close> (source lines 95 to 117), the spec's \<open>integrate\<close>. It passes
  three local matrices as output slots, so all three Jacobians are requested and
  written (lemma \<open>UpdateEstimate_all_requested\<close> below); \<open>the\<close> reads them. The source
  has no check on \<open>dt\<close> and no \<^verbatim>\<open>throw\<close>: the call returns the updated object.
\<close>

definition integrateMeasurement ::
  "external \<Rightarrow> Vector3 \<Rightarrow> Vector3 \<Rightarrow> real \<Rightarrow> AggregateImuReadings \<Rightarrow> AggregateImuReadings" where
  "integrateMeasurement E measuredAcc measuredOmega dt s =
     (let correctedAcc = measuredAcc - accelerometer (estimatedBias_m s);
          correctedOmega = measuredOmega - gyroscope (estimatedBias_m s);
          (zeta_plus, A, Ba, Bw) =
             UpdateEstimate E (zeta_m s) correctedAcc correctedOmega dt True True True;
          w = covariance (gyroscopeNoiseModel_m s) /\<^sub>R dt;
          a = covariance (accelerometerNoiseModel_m s) /\<^sub>R dt;
          cov_plus = mm (mm (the A) (cov_m s)) (transpose_mat (the A))
                   + mm (mm (the Bw) w) (transpose_mat (the Bw))
                   + mm (mm (the Ba) a) (transpose_mat (the Ba))
      in s\<lparr>zeta_m := zeta_plus, cov_m := cov_plus,
            k_m := k_m s + 1, deltaTij_m := deltaTij_m s + dt\<rparr>)"

text \<open>
  \<^verbatim>\<open>predict\<close> (source lines 119 to 136). The bias argument and the two optional
  Jacobians \<^verbatim>\<open>H1\<close>, \<^verbatim>\<open>H2\<close> are never read or written by the source.
\<close>

definition predict :: "external \<Rightarrow> AggregateImuReadings \<Rightarrow> NavState \<Rightarrow> Bias \<Rightarrow> NavState" where
  "predict E s state_i bias_i =
     (let zeta = zeta_m s;
          Ri = attitude state_i;
          Rit = transpose_mat Ri;
          gt = deltaTij_m s *\<^sub>R n_gravity (p_m s);
          zeta1 = set_segment Seg3
                    (dP zeta + mv Rit (deltaTij_m s *\<^sub>R velocity state_i
                                       + (0.5 * deltaTij_m s) *\<^sub>R gt)) zeta;
          zeta2 = set_segment Seg6 (dV zeta1 + mv Rit gt) zeta1
      in NavState_retract E state_i zeta2)"

text \<open>
  \<^verbatim>\<open>noiseModel\<close> (source lines 138 to 150) and \<^verbatim>\<open>preintMeasCov\<close> (lines 178 to 180).
  \<^verbatim>\<open>theta()\<close> is the rotation segment of \<^verbatim>\<open>zeta_\<close>. The source computes \<open>H\<close> (lines 142 to
  147) and \<open>HcH\<close> (line 149) and then returns the model of \<^verbatim>\<open>cov_\<close> (line 150).
\<close>

definition theta :: "AggregateImuReadings \<Rightarrow> Vector3" where
  "theta s = dR (zeta_m s)"

definition noiseModel_H :: "external \<Rightarrow> AggregateImuReadings \<Rightarrow> Matrix9" where
  "noiseModel_H E s =
     (let (iRj, D_R_theta) = Rot3_Expmap E (theta s)
      in Matrix9_of D_R_theta Z_3x3 Z_3x3
                    Z_3x3 (transpose_mat iRj) Z_3x3
                    Z_3x3 Z_3x3 (transpose_mat iRj))"

definition noiseModel_HcH :: "external \<Rightarrow> AggregateImuReadings \<Rightarrow> Matrix9" where
  "noiseModel_HcH E s =
     (let H = noiseModel_H E s
      in mm (mm H (cov_m s)) (transpose_mat H))"

definition noiseModel :: "external \<Rightarrow> AggregateImuReadings \<Rightarrow> idx9 Gaussian" where
  "noiseModel E s =
     (let HcH = noiseModel_HcH E s
      in Gaussian_Covariance (cov_m s) False)"

definition preintMeasCov :: "external \<Rightarrow> AggregateImuReadings \<Rightarrow> Matrix9" where
  "preintMeasCov E s = covariance (noiseModel E s)"

section \<open>A concrete rotation group for evaluation\<close>

text \<open>
  Modelled from the spec: the external collaborators \<^verbatim>\<open>Rot3::Expmap\<close>, \<^verbatim>\<open>Rot3::rotate\<close>,
  \<^verbatim>\<open>Matrix3::inverse\<close> and \<^verbatim>\<open>NavState::retract\<close>, none of which is among the sources. The
  spec asks for the "exact exponential map and its derivative", in closed form: Rodrigues'
  formula \<open>I + (sin t / t) K + ((1 - cos t) / t\<^sup>2) K\<^sup>2\<close> with \<open>K\<close> the skew-symmetric matrix
  of the increment and \<open>t\<close> its length, and the derivative
  \<open>I - ((1 - cos t) / t\<^sup>2) K + ((t - sin t) / t\<^sup>3) K\<^sup>2\<close>. The rotation action is the product of
  the rotation matrix with the vector; its derivative in the vector is the rotation
  matrix, and in the rotation it is the rotation matrix times the skew-symmetric matrix
  of the negated vector. The inverse of a 3x3 matrix is the transposed cofactor matrix
  divided by the determinant, with no check of the determinant. Retract composes the
  attitude with the exponential of the rotation segment and adds the rotated position and
  velocity segments.

  These definitions serve to evaluate the model at concrete inputs. The general theorems
  do not use them: they hold for every \<open>E\<close>. Where the determinant is zero the source
  divides by zero in floating point; HOL's \<open>x / 0 = 0\<close> is not that, and no statement
  below depends on the value of \<open>inverse3\<close> at a singular matrix.
\<close>

definition determinant3 :: "Matrix3 \<Rightarrow> real" where
  "determinant3 M =
     entry M X X * (entry M Y Y * entry M Z Z - entry M Y Z * entry M Z Y)
   - entry M X Y * (entry M Y X * entry M Z Z - entry M Y Z * entry M Z X)
   + entry M X Z * (entry M Y X * entry M Z Y - entry M Y Y * entry M Z X)"

definition cofactors_transposed :: "Matrix3 \<Rightarrow> Matrix3" where
  "cofactors_transposed M =
     Matrix3_of
       (entry M Y Y * entry M Z Z - entry M Y Z * entry M Z Y)
       (entry M X Z * entry M Z Y - entry M X Y * entry M Z Z)
       (entry M X Y * entry M Y Z - entry M X Z * entry M Y Y)
       (entry M Y Z * entry M Z X - entry M Y X * entry M Z Z)
       (entry M X X * entry M Z Z - entry M X Z * entry M Z X)
       (entry M X Z * entry M Y X - entry M X X * entry M Y Z)
       (entry M Y X * entry M Z Y - entry M Y Y * entry M Z X)
       (entry M X Y * entry M Z X - entry M X X * entry M Z Y)
       (entry M X X * entry M Y Y - entry M X Y * entry M Y X)"

definition inverse3 :: "Matrix3 \<Rightarrow> Matrix3" where
  "inverse3 M = cofactors_transposed M /\<^sub>R determinant3 M"

definition Expmap_so3 :: "Vector3 \<Rightarrow> Rot3 \<times> Matrix3" where
  "Expmap_so3 v =
     (let t2 = dot v v; t = sqrt t2; K = skewSymmetric v; KK = mm K K
      in if t = 0 then (I_3x3, I_3x3)
         else (I_3x3 + (sin t / t) *\<^sub>R K + ((1 - cos t) / t2) *\<^sub>R KK,
               I_3x3 - ((1 - cos t) / t2) *\<^sub>R K + ((t - sin t) / (t2 * t)) *\<^sub>R KK))"

definition rotate_so3 :: "Rot3 \<Rightarrow> Vector3 \<Rightarrow> Vector3 \<times> Matrix3 \<times> Matrix3" where
  "rotate_so3 R p = (mv R p, mm R (skewSymmetric (- p)), R)"

definition retract_nav :: "NavState \<Rightarrow> Vector9 \<Rightarrow> NavState" where
  "retract_nav x xi =
     \<lparr>attitude = mm (attitude x) (fst (Expmap_so3 (dR xi))),
      position = position x + mv (attitude x) (dP xi),
      velocity = velocity x + mv (attitude x) (dV xi)\<rparr>"

definition so3_external :: external where
  "so3_external =
     \<lparr>Rot3_Expmap = Expmap_so3,
      Rot3_rotate = rotate_so3,
      Matrix3_inverse = inverse3,
      NavState_retract = retract_nav,
      uninitialized = (0, 0)\<rparr>"

section \<open>Properties of the covariance\<close>

text \<open>A matrix is symmetric when it equals its transpose, and positive semi-definite
  when its quadratic form is nowhere negative.\<close>

definition symmetric :: "('n, 'n) mat \<Rightarrow> bool" where
  "symmetric A \<longleftrightarrow> transpose_mat A = A"

definition positive_semidefinite :: "('n, 'n) mat \<Rightarrow> bool" where
  "positive_semidefinite A \<longleftrightarrow> (\<forall>x. 0 \<le> dot x (mv A x))"

text \<open>Running \<^verbatim>\<open>integrateMeasurement\<close> over a finite sequence of samples
  \<open>(measuredAcc, measuredOmega, dt)\<close>, first sample first.\<close>

fun integrateAll ::
  "external \<Rightarrow> (Vector3 \<times> Vector3 \<times> real) list \<Rightarrow> AggregateImuReadings \<Rightarrow> AggregateImuReadings" where
  "integrateAll E [] s = s"
| "integrateAll E ((measuredAcc, measuredOmega, dt) # samples) s =
     integrateAll E samples (integrateMeasurement E measuredAcc measuredOmega dt s)"

text \<open>The noise models of an object are those its constructor built from its
  parameters; \<^verbatim>\<open>integrateMeasurement\<close> never assigns them.\<close>

definition noise_from_params :: "AggregateImuReadings \<Rightarrow> bool" where
  "noise_from_params s \<longleftrightarrow>
     covariance (accelerometerNoiseModel_m s) = accelerometerCovariance (p_m s) \<and>
     covariance (gyroscopeNoiseModel_m s) = gyroscopeCovariance (p_m s)"

text \<open>The discretised noise terms \<open>Bw (\<Sigma>_gyro / dt) Bw\<^sup>T + Ba (\<Sigma>_accel / dt) Ba\<^sup>T\<close> that
  one call of \<^verbatim>\<open>integrateMeasurement\<close> adds (the last two summands of source lines 111
  and 112).\<close>

definition noise_terms ::
  "external \<Rightarrow> Vector3 \<Rightarrow> Vector3 \<Rightarrow> real \<Rightarrow> AggregateImuReadings \<Rightarrow> Matrix9" where
  "noise_terms E measuredAcc measuredOmega dt s =
     (let correctedAcc = measuredAcc - accelerometer (estimatedBias_m s);
          correctedOmega = measuredOmega - gyroscope (estimatedBias_m s);
          (zeta_plus, A, Ba, Bw) =
             UpdateEstimate E (zeta_m s) correctedAcc correctedOmega dt True True True;
          w = covariance (gyroscopeNoiseModel_m s) /\<^sub>R dt;
          a = covariance (accelerometerNoiseModel_m s) /\<^sub>R dt
      in mm (mm (the Bw) w) (transpose_mat (the Bw))
       + mm (mm (the Ba) a) (transpose_mat (the Ba)))"

section \<open>Concrete inputs\<close>

text \<open>
  Parameters with an anisotropic accelerometer covariance, a zero bias, and the object
  the constructor builds from them. The other objects are reached from it by one call of
  \<^verbatim>\<open>integrateMeasurement\<close> with \<open>dt = 1\<close>: a pure rotation by a quarter turn about the
  third axis, a pure acceleration along the first axis, and a pure rotation by a full
  turn about the third axis.
\<close>

definition example_params :: Params where
  "example_params =
     \<lparr>accelerometerCovariance = Matrix3_of 1 0 0  0 4 0  0 0 9,
      gyroscopeCovariance = I_3x3,
      n_gravity = Vector3_of 0 0 (- 9.81)\<rparr>"

definition example_bias :: Bias where
  "example_bias = \<lparr>accelerometer = 0, gyroscope = 0\<rparr>"

definition initial_state :: AggregateImuReadings where
  "initial_state = AggregateImuReadings_init example_params example_bias"

definition quarter_turn_state :: AggregateImuReadings where
  "quarter_turn_state =
     integrateMeasurement so3_external 0 (Vector3_of 0 0 (pi / 2)) 1 initial_state"

definition moving_state :: AggregateImuReadings where
  "moving_state = integrateMeasurement so3_external (Vector3_of 1 0 0) 0 1 initial_state"

definition full_turn_state :: AggregateImuReadings where
  "full_turn_state =
     integrateMeasurement so3_external 0 (Vector3_of 0 0 (2 * pi)) 1 initial_state"

text \<open>An initial motion state at rest, and parameters without gravity.\<close>

definition level_state :: NavState where
  "level_state = \<lparr>attitude = I_3x3, position = Vector3_of 1 2 3, velocity = 0\<rparr>"

definition free_fall_params :: Params where
  "free_fall_params = example_params\<lparr>n_gravity := 0\<rparr>"

section \<open>Evaluating sums over the index types\<close>

lemma sum_axis: "(\<Sum>i\<in>(UNIV :: axis set). f i) = f X + f Y + f Z"
proof -
  have U: "(UNIV :: axis set) = {X, Y, Z}"
    by (auto intro: axis.exhaust)
  show ?thesis
    unfolding U by (simp add: add.assoc)
qed

lemma sum_seg: "(\<Sum>s\<in>(UNIV :: seg set). f s) = f Seg0 + f Seg3 + f Seg6"
proof -
  have U: "(UNIV :: seg set) = {Seg0, Seg3, Seg6}"
    by (auto intro: seg.exhaust)
  show ?thesis
    unfolding U by (simp add: add.assoc)
qed

lemma sum_idx9:
  "(\<Sum>p\<in>(UNIV :: idx9 set). f p) = (\<Sum>s\<in>UNIV. \<Sum>i\<in>UNIV. f (s, i))"
  by (simp add: sum.cartesian_product flip: UNIV_Times_UNIV)

text \<open>
  For code generation the sums over all indices run over the enumeration of the index
  type. With these equations the model computes: over the identity in place of the
  exponential map, a hundred samples \<open>accel = (0, 0, 9.81)\<close>, \<open>omega = 0\<close>, \<open>dt = 0.01\<close> from
  the freshly constructed object give the velocity segment \<open>(0, 0, 981/100)\<close>, the position
  segment \<open>(0, 0, 981/200)\<close>, a zero rotation segment, elapsed time 1 and count 100, as in
  the spec's scenario.
\<close>

lemma sum_enum: "(\<Sum>k\<in>(UNIV :: 'k::enum set). f k) = sum_list (map f Enum.enum)"
  by (simp add: UNIV_enum sum.distinct_set_conv_list enum_distinct)

lemma mm_code [code]:
  "mm A B = Mat (\<lambda>i j. sum_list (map (\<lambda>k. entry A i k * entry B k j) Enum.enum))"
  by (simp add: mm_def sum_enum)

lemma mv_code [code]:
  "mv A x = Vec (\<lambda>i. sum_list (map (\<lambda>k. entry A i k * coeff x k) Enum.enum))"
  by (simp add: mv_def sum_enum)

lemma dot_code [code]:
  "dot x y = sum_list (map (\<lambda>i. coeff x i * coeff y i) Enum.enum)"
  by (simp add: dot_def sum_enum)

section \<open>Basic facts about vectors and matrices\<close>

lemma coeff_simps:
  "coeff (0 :: 'n vec) i = 0"
  "coeff (u + v) i = coeff u i + coeff v i"
  "coeff (u - v) i = coeff u i - coeff v i"
  "coeff (- u) i = - coeff u i"
  "coeff (r *\<^sub>R u) i = r * coeff u i"
  by (simp_all add: zero_vec_def plus_vec_def minus_vec_def uminus_vec_def scaleR_vec_def)

lemma entry_simps:
  "entry (0 :: ('m, 'n) mat) i j = 0"
  "entry (A + B) i j = entry A i j + entry B i j"
  "entry (A - B) i j = entry A i j - entry B i j"
  "entry (- A) i j = - entry A i j"
  "entry (r *\<^sub>R A) i j = r * entry A i j"
  by (simp_all add: zero_mat_def plus_mat_def minus_mat_def uminus_mat_def scaleR_mat_def)

lemma vec_eqI: "(\<And>i. coeff u i = coeff v i) \<Longrightarrow> u = v"
  by (cases u, cases v) (simp add: fun_eq_iff)

lemma mat_eqI: "(\<And>i j. entry A i j = entry B i j) \<Longrightarrow> A = B"
  by (cases A, cases B) (simp add: fun_eq_iff)

lemma entry_mm: "entry (mm A B) i j = (\<Sum>k\<in>UNIV. entry A i k * entry B k j)"
  by (simp add: mm_def)

lemma coeff_mv: "coeff (mv A x) i = (\<Sum>k\<in>UNIV. entry A i k * coeff x k)"
  by (simp add: mv_def)

lemma entry_transpose: "entry (transpose_mat A) i j = entry A j i"
  by (simp add: transpose_mat_def)

lemma Vector3_of_coeffs:
  "coeff (Vector3_of x y z) X = x" "coeff (Vector3_of x y z) Y = y" "coeff (Vector3_of x y z) Z = z"
  by (simp_all add: Vector3_of_def)

lemma Matrix3_of_entries:
  "entry (Matrix3_of a b c d e f g h l) X X = a"
  "entry (Matrix3_of a b c d e f g h l) X Y = b"
  "entry (Matrix3_of a b c d e f g h l) X Z = c"
  "entry (Matrix3_of a b c d e f g h l) Y X = d"
  "entry (Matrix3_of a b c d e f g h l) Y Y = e"
  "entry (Matrix3_of a b c d e f g h l) Y Z = f"
  "entry (Matrix3_of a b c d e f g h l) Z X = g"
  "entry (Matrix3_of a b c d e f g h l) Z Y = h"
  "entry (Matrix3_of a b c d e f g h l) Z Z = l"
  by (simp_all add: Matrix3_of_def)

lemma dot_Vector3_of: "dot (Vector3_of a b c) (Vector3_of x y z) = a * x + b * y + c * z"
  by (simp add: dot_def sum_axis Vector3_of_def)

lemma mv_zero: "mv A 0 = 0"
  by (simp add: mv_def zero_vec_def)

lemma mm_zero_left: "mm 0 A = 0"
  by (rule mat_eqI) (simp add: entry_mm entry_simps)

lemma mm_zero_right: "mm A 0 = 0"
  by (rule mat_eqI) (simp add: entry_mm entry_simps)

lemma mm_scaleR_left: "mm (r *\<^sub>R A) B = r *\<^sub>R mm A B"
  by (rule mat_eqI) (simp add: entry_mm entry_simps sum_distrib_left mult.assoc)

lemma mm_scaleR_right: "mm A (r *\<^sub>R B) = r *\<^sub>R mm A B"
  by (rule mat_eqI) (simp add: entry_mm entry_simps sum_distrib_left mult.left_commute)

lemma delta_mult:
  "(if c then 1 else 0) * x = (if c then x else 0)"
  "x * (if c then 1 else 0) = (if c then x else 0)" for x :: real
  by simp_all

lemma transpose_Identity: "transpose_mat Identity = Identity"
  by (rule mat_eqI) (auto simp: entry_transpose Identity_def)

lemma mm_Identity_left: "mm Identity A = A" for A :: "('n::finite, 'm) mat"
  by (rule mat_eqI) (simp add: entry_mm Identity_def delta_mult sum.delta')

lemma mm_Identity_right: "mm A Identity = A" for A :: "('m, 'n::finite) mat"
  by (rule mat_eqI) (simp add: entry_mm Identity_def delta_mult sum.delta)

lemma mv_Identity: "mv Identity x = x" for x :: "'n::finite vec"
  by (rule vec_eqI) (simp add: coeff_mv Identity_def delta_mult sum.delta')

lemma I_3x3_simps:
  "mm I_3x3 A = A" "mm B I_3x3 = B" "mv I_3x3 x = x" "transpose_mat I_3x3 = I_3x3"
  by (simp_all add: I_3x3_def mm_Identity_left mm_Identity_right mv_Identity transpose_Identity)

lemma transpose_zero: "transpose_mat 0 = 0"
  by (rule mat_eqI) (simp add: entry_transpose entry_simps)

lemma transpose_mm: "transpose_mat (mm A B) = mm (transpose_mat B) (transpose_mat A)"
  by (rule mat_eqI) (simp add: entry_mm entry_transpose mult.commute)

lemma transpose_transpose: "transpose_mat (transpose_mat A) = A"
  by (rule mat_eqI) (simp add: entry_transpose)

lemma transpose_add: "transpose_mat (A + B) = transpose_mat A + transpose_mat B"
  by (rule mat_eqI) (simp add: entry_transpose entry_simps)

lemma transpose_scaleR: "transpose_mat (r *\<^sub>R A) = r *\<^sub>R transpose_mat A"
  by (rule mat_eqI) (simp add: entry_transpose entry_simps)

lemma mm_assoc: "mm (mm A B) C = mm A (mm B C)"
proof (rule mat_eqI)
  fix i j
  have "entry (mm (mm A B) C) i j = (\<Sum>l\<in>UNIV. \<Sum>k\<in>UNIV. entry A i k * entry B k l * entry C l j)"
    by (simp add: entry_mm sum_distrib_right)
  also have "\<dots> = (\<Sum>k\<in>UNIV. \<Sum>l\<in>UNIV. entry A i k * entry B k l * entry C l j)"
    by (rule sum.swap)
  also have "\<dots> = entry (mm A (mm B C)) i j"
    by (simp add: entry_mm sum_distrib_left mult.assoc)
  finally show "entry (mm (mm A B) C) i j = entry (mm A (mm B C)) i j" .
qed

lemma mv_mm: "mv (mm A B) x = mv A (mv B x)"
proof (rule vec_eqI)
  fix i
  have "coeff (mv (mm A B) x) i = (\<Sum>k\<in>UNIV. \<Sum>l\<in>UNIV. entry A i l * entry B l k * coeff x k)"
    by (simp add: coeff_mv entry_mm sum_distrib_right)
  also have "\<dots> = (\<Sum>l\<in>UNIV. \<Sum>k\<in>UNIV. entry A i l * entry B l k * coeff x k)"
    by (rule sum.swap)
  also have "\<dots> = coeff (mv A (mv B x)) i"
    by (simp add: coeff_mv sum_distrib_left mult.assoc)
  finally show "coeff (mv (mm A B) x) i = coeff (mv A (mv B x)) i" .
qed

lemma dot_mv_transpose: "dot x (mv A y) = dot (mv (transpose_mat A) x) y"
proof -
  have "dot x (mv A y) = (\<Sum>i\<in>UNIV. \<Sum>k\<in>UNIV. entry A i k * coeff x i * coeff y k)"
    by (simp add: dot_def coeff_mv sum_distrib_left mult.assoc mult.left_commute)
  also have "\<dots> = (\<Sum>k\<in>UNIV. \<Sum>i\<in>UNIV. entry A i k * coeff x i * coeff y k)"
    by (rule sum.swap)
  also have "\<dots> = dot (mv (transpose_mat A) x) y"
    by (simp add: dot_def coeff_mv entry_transpose sum_distrib_right)
  finally show ?thesis .
qed

lemma skewSymmetric_zero: "skewSymmetric 0 = 0"
  by (rule mat_eqI) (simp add: skewSymmetric_def Matrix3_of_def Let_def coeff_simps entry_simps split: axis.splits)

subsection \<open>Segments and blocks\<close>

lemma segment_Vector9_of:
  "dR (Vector9_of r p v) = r" "dP (Vector9_of r p v) = p" "dV (Vector9_of r p v) = v"
  by (simp_all add: dR_def dP_def dV_def segment_def Vector9_of_def)

lemma segment_zero: "dR 0 = 0" "dP 0 = 0" "dV 0 = 0"
  by (simp_all add: dR_def dP_def dV_def segment_def zero_vec_def)

lemma coeff_segments:
  "coeff (dR v) i = coeff v (Seg0, i)" "coeff (dP v) i = coeff v (Seg3, i)"
  "coeff (dV v) i = coeff v (Seg6, i)"
  by (simp_all add: dR_def dP_def dV_def segment_def)

lemma set_segment_simps:
  "segment s (set_segment t u v) = (if s = t then u else segment s v)"
  by (auto simp: segment_def set_segment_def)

lemma Vector9_eq_segments: "Vector9_of (dR v) (dP v) (dV v) = v"
  by (rule vec_eqI) (auto simp: Vector9_of_def dR_def dP_def dV_def segment_def split: seg.splits)

lemma set_segments_Vector9_of:
  "set_segment Seg6 v' (set_segment Seg3 p' z) = Vector9_of (dR z) p' v'"
  by (rule vec_eqI) (auto simp: Vector9_of_def dR_def set_segment_def segment_def split: seg.splits)

lemma entry_block: "entry A (r, i) (c, j) = entry (block r c A) i j"
  by (simp add: block_def)

lemma block_add: "block r c (A + B) = block r c A + block r c B"
  by (simp add: block_def plus_mat_def)

lemma block_zero: "block r c 0 = 0"
  by (simp add: block_def zero_mat_def)

lemma block_Matrix9_of:
  "block r c (Matrix9_of B00 B03 B06 B30 B33 B36 B60 B63 B66) =
     (case r of
        Seg0 \<Rightarrow> (case c of Seg0 \<Rightarrow> B00 | Seg3 \<Rightarrow> B03 | Seg6 \<Rightarrow> B06)
      | Seg3 \<Rightarrow> (case c of Seg0 \<Rightarrow> B30 | Seg3 \<Rightarrow> B33 | Seg6 \<Rightarrow> B36)
      | Seg6 \<Rightarrow> (case c of Seg0 \<Rightarrow> B60 | Seg3 \<Rightarrow> B63 | Seg6 \<Rightarrow> B66))"
  by (simp add: block_def Matrix9_of_def split: seg.splits)

lemma rows_Matrix93_of:
  "rows r (Matrix93_of B0 B3 B6) = (case r of Seg0 \<Rightarrow> B0 | Seg3 \<Rightarrow> B3 | Seg6 \<Rightarrow> B6)"
  by (simp add: rows_def Matrix93_of_def split: seg.splits)

lemma block_transpose: "block r c (transpose_mat A) = transpose_mat (block c r A)"
  by (simp add: block_def transpose_mat_def)

lemma block_mm:
  "block r c (mm A B) =
     mm (block r Seg0 A) (block Seg0 c B) + mm (block r Seg3 A) (block Seg3 c B)
   + mm (block r Seg6 A) (block Seg6 c B)"
  by (rule mat_eqI) (simp add: block_def entry_mm entry_simps sum_idx9 sum_seg)

lemma rows_mm: "rows r (mm B W) = mm (rows r B) W"
  by (rule mat_eqI) (simp add: rows_def entry_mm)

lemma block_mm_transpose:
  "block r c (mm B (transpose_mat B')) = mm (rows r B) (transpose_mat (rows c B'))"
  for B B' :: Matrix93
  by (rule mat_eqI) (simp add: block_def rows_def entry_mm entry_transpose)

subsection \<open>Symmetric and positive semi-definite matrices\<close>

text \<open>
  The quadratic form of \<open>A C A\<^sup>T\<close> at \<open>x\<close> is the quadratic form of \<open>C\<close> at \<open>A\<^sup>T x\<close>; so a
  congruence keeps a matrix symmetric and positive semi-definite, and so do sums and
  products with a non-negative scalar.
\<close>

lemma quadratic_form_congruence:
  "dot x (mv (mm (mm A C) (transpose_mat A)) x) =
   dot (mv (transpose_mat A) x) (mv C (mv (transpose_mat A) x))"
  by (simp add: mv_mm dot_mv_transpose[of x A])

lemma quadratic_form_add: "dot x (mv (A + B) x) = dot x (mv A x) + dot x (mv B x)"
  by (simp add: dot_def coeff_mv entry_simps distrib_right distrib_left sum.distrib)

lemma quadratic_form_scaleR: "dot x (mv (r *\<^sub>R A) x) = r * dot x (mv A x)"
  by (simp add: dot_def coeff_mv entry_simps sum_distrib_left mult.assoc mult.left_commute)

lemma positive_semidefinite_congruence:
  "positive_semidefinite C \<Longrightarrow> positive_semidefinite (mm (mm A C) (transpose_mat A))"
  by (simp add: positive_semidefinite_def quadratic_form_congruence)

lemma positive_semidefinite_add:
  "positive_semidefinite A \<Longrightarrow> positive_semidefinite B \<Longrightarrow> positive_semidefinite (A + B)"
  by (simp add: positive_semidefinite_def quadratic_form_add)

lemma positive_semidefinite_scaleR:
  "0 \<le> r \<Longrightarrow> positive_semidefinite A \<Longrightarrow> positive_semidefinite (r *\<^sub>R A)"
  by (simp add: positive_semidefinite_def quadratic_form_scaleR)

lemma positive_semidefinite_zero: "positive_semidefinite 0"
  by (simp add: positive_semidefinite_def dot_def coeff_mv entry_simps)

lemma symmetric_congruence:
  "symmetric C \<Longrightarrow> symmetric (mm (mm A C) (transpose_mat A))"
  by (simp add: symmetric_def transpose_mm transpose_transpose mm_assoc)

lemma symmetric_add: "symmetric A \<Longrightarrow> symmetric B \<Longrightarrow> symmetric (A + B)"
  by (simp add: symmetric_def transpose_add)

lemma symmetric_scaleR: "symmetric A \<Longrightarrow> symmetric (r *\<^sub>R A)"
  by (simp add: symmetric_def transpose_scaleR)

lemma symmetric_zero: "symmetric 0"
  by (simp add: symmetric_def transpose_mat_def zero_mat_def)

subsection \<open>The concrete rotation group\<close>

text \<open>
  At the zero increment the exponential map and its derivative are the identity. About
  the third axis the exponential map is the plane rotation by the angle \<open>t\<close>; the
  determinant of its derivative is \<open>(2 - 2 cos t) / t\<^sup>2\<close>, which vanishes at a full turn.
\<close>

lemma Expmap_so3_zero: "Expmap_so3 0 = (I_3x3, I_3x3)"
  by (simp add: Expmap_so3_def Let_def dot_def coeff_simps)

lemma Expmap_so3_about_Z:
  assumes "0 < t"
  shows "Expmap_so3 (Vector3_of 0 0 t) =
    (Matrix3_of (cos t) (- sin t) 0  (sin t) (cos t) 0  0 0 1,
     Matrix3_of (sin t / t) ((1 - cos t) / t) 0  (- ((1 - cos t) / t)) (sin t / t) 0  0 0 1)"
proof -
  have n: "dot (Vector3_of 0 0 t) (Vector3_of 0 0 t) = t * t"
    by (simp add: dot_Vector3_of)
  have r: "sqrt (t * t) = t"
    using assms by simp
  have K: "skewSymmetric (Vector3_of 0 0 t) = Matrix3_of 0 (- t) 0  t 0 0  0 0 0"
    by (simp add: skewSymmetric_def Vector3_of_def)
  have KK: "mm (Matrix3_of 0 (- t) 0  t 0 0  0 0 0) (Matrix3_of 0 (- t) 0  t 0 0  0 0 0)
      = Matrix3_of (- (t * t)) 0 0  0 (- (t * t)) 0  0 0 0"
    by (rule mat_eqI) (simp add: mm_def sum_axis Matrix3_of_def split: axis.splits)
  have I: "I_3x3 = Matrix3_of 1 0 0  0 1 0  0 0 1"
    by (rule mat_eqI) (simp add: I_3x3_def Identity_def Matrix3_of_def split: axis.splits)
  have t0: "t \<noteq> 0"
    using assms by simp
  show ?thesis
    unfolding Expmap_so3_def Let_def n r K KK I
    using t0
    by (auto intro!: mat_eqI simp: entry_simps Matrix3_of_def field_simps split: axis.splits)
qed

lemma Expmap_so3_full_turn:
  "Expmap_so3 (Vector3_of 0 0 (2 * pi)) =
     (Matrix3_of 1 0 0  0 1 0  0 0 1, Matrix3_of 0 0 0  0 0 0  0 0 1)"
proof -
  have "(0 :: real) < 2 * pi"
    by simp
  from Expmap_so3_about_Z[OF this] show ?thesis
    by simp
qed

lemma inverse3_Identity: "inverse3 I_3x3 = I_3x3"
  by (rule mat_eqI)
     (simp add: inverse3_def determinant3_def cofactors_transposed_def I_3x3_def Identity_def
        Matrix3_of_def entry_simps split: axis.splits)

lemma rotate_so3_zero: "rotate_so3 R 0 = (0, 0, R)"
  by (simp add: rotate_so3_def mv_zero skewSymmetric_zero mm_zero_right)

section \<open>The mean propagator\<close>

lemma UpdateEstimate_A_blocks:
  "UpdateEstimate_A D_Radt_R D_R_theta w_dt dt dt2 =
     Matrix9_of (I_3x3 - skewSymmetric (0.5 *\<^sub>R w_dt)) Z_3x3 Z_3x3
                (dt2 *\<^sub>R mm D_Radt_R D_R_theta) I_3x3 (dt *\<^sub>R I_3x3)
                (mm D_Radt_R D_R_theta) Z_3x3 I_3x3"
  apply (rule mat_eqI)
  apply (auto simp: UpdateEstimate_A_def Let_def set_block_def block_def Matrix9_of_def
      Identity_def I_3x3_def Z_3x3_def entry_simps skewSymmetric_def Matrix3_of_def coeff_simps
      split: seg.splits axis.splits)
  done

lemma UpdateEstimate_all_requested:
  "\<exists>A Ba Bw. snd (UpdateEstimate E zeta correctedAcc correctedOmega dt True True True)
      = (Some A, Some Ba, Some Bw)"
  by (simp add: UpdateEstimate_def Let_def split_def)

lemma UpdateEstimate_so3_at_zero_rotation:
  assumes "dR zeta = 0"
  shows "UpdateEstimate so3_external zeta correctedAcc correctedOmega dt True True True =
    (Vector9_of (dt *\<^sub>R correctedOmega)
                (dP zeta + dt *\<^sub>R dV zeta + (0.5 * dt) *\<^sub>R (dt *\<^sub>R correctedAcc))
                (dV zeta + dt *\<^sub>R correctedAcc),
     Some (Matrix9_of (I_3x3 - skewSymmetric (0.5 *\<^sub>R (dt *\<^sub>R correctedOmega))) Z_3x3 Z_3x3
             ((0.5 * dt) *\<^sub>R skewSymmetric (- (dt *\<^sub>R correctedAcc))) I_3x3 (dt *\<^sub>R I_3x3)
             (skewSymmetric (- (dt *\<^sub>R correctedAcc))) Z_3x3 I_3x3),
     Some (Matrix93_of Z_3x3 ((0.5 * dt) *\<^sub>R (dt *\<^sub>R I_3x3)) (dt *\<^sub>R I_3x3)),
     Some (Matrix93_of (dt *\<^sub>R I_3x3) Z_3x3 Z_3x3))"
  by (simp add: UpdateEstimate_def Let_def so3_external_def assms Expmap_so3_zero rotate_so3_def
      inverse3_Identity UpdateEstimate_A_blocks I_3x3_simps)

lemma zero_motion_UpdateEstimate:
  assumes "Rot3_rotate E (fst (Rot3_Expmap E (dR zeta))) 0 = (0, 0, H2)"
  shows "UpdateEstimate E zeta 0 0 dt True True True =
    (Vector9_of (dR zeta) (dP zeta + dt *\<^sub>R dV zeta) (dV zeta),
     Some (Matrix9_of I_3x3 Z_3x3 Z_3x3  Z_3x3 I_3x3 (dt *\<^sub>R I_3x3)  Z_3x3 Z_3x3 I_3x3),
     Some (Matrix93_of Z_3x3 ((0.5 * dt) *\<^sub>R (dt *\<^sub>R H2)) (dt *\<^sub>R H2)),
     Some (Matrix93_of (dt *\<^sub>R Matrix3_inverse E (snd (Rot3_Expmap E (dR zeta)))) Z_3x3 Z_3x3))"
  using assms
  by (simp add: UpdateEstimate_def Let_def split_def UpdateEstimate_A_blocks mv_zero
      skewSymmetric_zero mm_zero_left Z_3x3_def)

text \<open>
  \<^bold>\<open>Claim C3.\<close> For every tangent state \<open>zeta = (theta, p, v)\<close>, bias-corrected
  measurements and \<open>dt\<close>, one step of the mean propagator returns the vector whose
  rotation segment is \<open>theta + D\<^sup>-\<^sup>1 (omega dt)\<close>, whose position segment is
  \<open>p + v dt + 0.5 dt Radt\<close> and whose velocity segment is \<open>v + Radt\<close>. Here \<open>R\<close> and \<open>D\<close> are
  the rotation and the derivative that the exponential map gives at \<open>theta\<close>, \<open>D\<^sup>-\<^sup>1\<close> is
  what \<^verbatim>\<open>Matrix3::inverse\<close> gives at \<open>D\<close>, and \<open>Radt\<close> is the rotation action of \<open>R\<close> on
  \<open>accel dt\<close>. The statement holds for every \<open>dt\<close>, in particular for \<open>dt > 0\<close>, and
  whichever Jacobians are requested.
\<close>

theorem UpdateEstimate_mean:
  "let (R, D) = Rot3_Expmap E (dR zeta);
       Radt = fst (Rot3_rotate E R (dt *\<^sub>R correctedAcc));
       zeta_plus = fst (UpdateEstimate E zeta correctedAcc correctedOmega dt A Ba Bw)
   in dR zeta_plus = dR zeta + mv (Matrix3_inverse E D) (dt *\<^sub>R correctedOmega) \<and>
      dP zeta_plus = dP zeta + dt *\<^sub>R dV zeta + (0.5 * dt) *\<^sub>R Radt \<and>
      dV zeta_plus = dV zeta + Radt"
  by (simp add: UpdateEstimate_def Let_def split_def segment_Vector9_of)

text \<open>
  \<^bold>\<open>Claim C10.\<close> The 9-vector returned by the mean propagator is the same whether or not
  any of the Jacobians \<open>A\<close>, \<open>Ba\<close>, \<open>Bw\<close> is requested. It does not depend on the content
  of the uninitialised local matrices either.
\<close>

theorem UpdateEstimate_mean_independent:
  "fst (UpdateEstimate E zeta correctedAcc correctedOmega dt A Ba Bw) =
   fst (UpdateEstimate (E\<lparr>uninitialized := u\<rparr>) zeta correctedAcc correctedOmega dt A' Ba' Bw')"
  by (simp add: UpdateEstimate_def Let_def split_def)

text \<open>
  The Jacobians of the mean propagator. When \<open>A\<close> is requested it is the 9x9 identity
  with four blocks changed: the rotation-self block is \<open>I\<close> minus the skew-symmetric matrix
  of half the angular impulse \<open>omega dt\<close>, the position-by-rotation block is
  \<open>D_Radt_theta\<close> times \<open>0.5 dt\<close>, the velocity-by-rotation block is \<open>D_Radt_theta\<close>, and the
  position-by-velocity block is \<open>dt\<close> times the identity. When \<open>Bw\<close> is requested its blocks
  are \<open>(D\<^sup>-\<^sup>1 dt, 0, 0)\<close>. When \<open>Ba\<close> is requested and \<open>A\<close> is requested too, the blocks of
  \<open>Ba\<close> are \<open>(0, D_Radt_adt 0.5 dt\<^sup>2, D_Radt_adt dt)\<close>. \<open>D_Radt_R\<close> and \<open>D_Radt_adt\<close> are the
  derivatives that \<^verbatim>\<open>Rot3::rotate\<close> writes, \<open>D_R_theta\<close> is the derivative that
  \<^verbatim>\<open>Rot3::Expmap\<close> writes, and \<open>D_Radt_theta\<close> is their product \<open>D_Radt_R D_R_theta\<close> (the chain
  rule of source line 78; that the external derivatives are the true ones is outside
  this file).
\<close>

lemma UpdateEstimate_jacobians:
  "let w_dt = dt *\<^sub>R correctedOmega;
       (R, D_R_theta) = Rot3_Expmap E (dR zeta);
       invH = Matrix3_inverse E D_R_theta;
       (Radt, D_Radt_R, D_Radt_adt) = Rot3_rotate E R (dt *\<^sub>R correctedAcc);
       D_Radt_theta = mm D_Radt_R D_R_theta
   in fst (snd (UpdateEstimate E zeta correctedAcc correctedOmega dt True Ba Bw)) =
        Some (Matrix9_of (I_3x3 - skewSymmetric (0.5 *\<^sub>R w_dt)) Z_3x3 Z_3x3
                         ((0.5 * dt) *\<^sub>R D_Radt_theta) I_3x3 (dt *\<^sub>R I_3x3)
                         D_Radt_theta Z_3x3 I_3x3) \<and>
      fst (snd (snd (UpdateEstimate E zeta correctedAcc correctedOmega dt True True Bw))) =
        Some (Matrix93_of Z_3x3 ((0.5 * dt\<^sup>2) *\<^sub>R D_Radt_adt) (dt *\<^sub>R D_Radt_adt)) \<and>
      snd (snd (snd (UpdateEstimate E zeta correctedAcc correctedOmega dt A Ba True))) =
        Some (Matrix93_of (dt *\<^sub>R invH) Z_3x3 Z_3x3)"
  by (simp add: UpdateEstimate_def Let_def split_def UpdateEstimate_A_blocks power2_eq_square)

text \<open>
  Source line 68 hands the two derivative slots to \<^verbatim>\<open>Rot3::rotate\<close> only when \<open>A\<close> is
  requested, while line 89 reads \<open>D_Radt_adt\<close> whenever \<open>Ba\<close> is requested. A caller that
  asks for \<open>Ba\<close> without \<open>A\<close> gets \<open>Ba\<close> assembled from the uninitialised local.
  \<^verbatim>\<open>integrateMeasurement\<close>, the only caller among the sources, requests all three.
\<close>

lemma UpdateEstimate_Ba_without_A:
  "fst (snd (snd (UpdateEstimate E zeta correctedAcc correctedOmega dt False True Bw))) =
     Some (Matrix93_of Z_3x3 ((0.5 * dt) *\<^sub>R (dt *\<^sub>R snd (uninitialized E)))
                       (dt *\<^sub>R snd (uninitialized E)))"
  by (simp add: UpdateEstimate_def Let_def split_def)

text \<open>
  \<^bold>\<open>Claim C6\<close> says that a requested specific-force Jacobian \<open>Ba\<close> has the blocks
  \<open>(0, D_Radt_adt 0.5 dt\<^sup>2, D_Radt_adt dt)\<close>, with \<open>D_Radt_adt\<close> the derivative of the rotated
  impulse in the impulse. The source does so only when \<open>A\<close> is requested as well. At the
  zero tangent state, with the corrected acceleration \<open>(1, 0, 0)\<close>, no rotation rate and
  \<open>dt = 1\<close>, that derivative is the identity and \<open>Ba\<close> requested together with \<open>A\<close> is
  \<open>(0, I/2, I)\<close>. Requested alone, \<open>Ba\<close> is built from whatever the uninitialised local
  \<open>D_Radt_adt\<close> holds: \<open>(0, 0, 0)\<close> when it holds zeros, \<open>(0, 7/2 I, 7 I)\<close> when it holds
  \<open>7 I\<close>.
\<close>

theorem UpdateEstimate_Ba_uninitialised:
  "fst (snd (snd (UpdateEstimate so3_external 0 (Vector3_of 1 0 0) 0 1 True True False))) =
     Some (Matrix93_of Z_3x3 ((1 / 2) *\<^sub>R I_3x3) I_3x3) \<and>
   fst (snd (snd (UpdateEstimate so3_external 0 (Vector3_of 1 0 0) 0 1 False True False))) =
     Some (Matrix93_of Z_3x3 Z_3x3 Z_3x3) \<and>
   fst (snd (snd (UpdateEstimate (so3_external\<lparr>uninitialized := (0, 7 *\<^sub>R I_3x3)\<rparr>)
                    0 (Vector3_of 1 0 0) 0 1 False True False))) =
     Some (Matrix93_of Z_3x3 ((7 / 2) *\<^sub>R I_3x3) (7 *\<^sub>R I_3x3))"
proof -
  have with_A:
    "fst (snd (snd (UpdateEstimate so3_external 0 (Vector3_of 1 0 0) 0 1 True True False))) =
       Some (Matrix93_of Z_3x3 ((1 / 2) *\<^sub>R I_3x3) I_3x3)"
    by (simp add: UpdateEstimate_def Let_def so3_external_def segment_zero Expmap_so3_zero
        rotate_so3_def)
  have zeros: "uninitialized so3_external = (0, 0)"
    by (simp add: so3_external_def)
  have without_A:
    "fst (snd (snd (UpdateEstimate so3_external 0 (Vector3_of 1 0 0) 0 1 False True False))) =
       Some (Matrix93_of Z_3x3 Z_3x3 Z_3x3)"
    unfolding UpdateEstimate_Ba_without_A zeros by (simp add: Z_3x3_def)
  have garbage:
    "fst (snd (snd (UpdateEstimate (so3_external\<lparr>uninitialized := (0, 7 *\<^sub>R I_3x3)\<rparr>)
                      0 (Vector3_of 1 0 0) 0 1 False True False))) =
       Some (Matrix93_of Z_3x3 ((7 / 2) *\<^sub>R I_3x3) (7 *\<^sub>R I_3x3))"
    unfolding UpdateEstimate_Ba_without_A by simp
  show ?thesis
    using with_A without_A garbage by blast
qed

section \<open>The integrator\<close>

lemma integrateMeasurement_fields:
  "zeta_m (integrateMeasurement E measuredAcc measuredOmega dt s) =
     fst (UpdateEstimate E (zeta_m s) (measuredAcc - accelerometer (estimatedBias_m s))
            (measuredOmega - gyroscope (estimatedBias_m s)) dt True True True)"
  "k_m (integrateMeasurement E measuredAcc measuredOmega dt s) = k_m s + 1"
  "deltaTij_m (integrateMeasurement E measuredAcc measuredOmega dt s) = deltaTij_m s + dt"
  "p_m (integrateMeasurement E measuredAcc measuredOmega dt s) = p_m s"
  "estimatedBias_m (integrateMeasurement E measuredAcc measuredOmega dt s) = estimatedBias_m s"
  "accelerometerNoiseModel_m (integrateMeasurement E measuredAcc measuredOmega dt s) =
     accelerometerNoiseModel_m s"
  "gyroscopeNoiseModel_m (integrateMeasurement E measuredAcc measuredOmega dt s) =
     gyroscopeNoiseModel_m s"
  by (simp_all add: integrateMeasurement_def Let_def split_def)

lemma integrateMeasurement_cov:
  assumes "snd (UpdateEstimate E (zeta_m s) (measuredAcc - accelerometer (estimatedBias_m s))
            (measuredOmega - gyroscope (estimatedBias_m s)) dt True True True)
           = (Some A, Some Ba, Some Bw)"
  shows "cov_m (integrateMeasurement E measuredAcc measuredOmega dt s) =
           mm (mm A (cov_m s)) (transpose_mat A)
         + mm (mm Bw (covariance (gyroscopeNoiseModel_m s) /\<^sub>R dt)) (transpose_mat Bw)
         + mm (mm Ba (covariance (accelerometerNoiseModel_m s) /\<^sub>R dt)) (transpose_mat Ba)"
  using assms by (simp add: integrateMeasurement_def Let_def split_def)

lemma noise_terms_cov:
  assumes "snd (UpdateEstimate E (zeta_m s) (measuredAcc - accelerometer (estimatedBias_m s))
            (measuredOmega - gyroscope (estimatedBias_m s)) dt True True True)
           = (Some A, Some Ba, Some Bw)"
  shows "cov_m (integrateMeasurement E measuredAcc measuredOmega dt s) =
           mm (mm A (cov_m s)) (transpose_mat A) + noise_terms E measuredAcc measuredOmega dt s"
  using assms by (simp add: integrateMeasurement_def noise_terms_def Let_def split_def add.assoc)

lemma initial_state_simps:
  "zeta_m initial_state = 0" "cov_m initial_state = 0"
  "k_m initial_state = 0" "deltaTij_m initial_state = 0"
  "estimatedBias_m initial_state = example_bias"
  "p_m initial_state = example_params"
  "covariance (accelerometerNoiseModel_m initial_state) = Matrix3_of 1 0 0  0 4 0  0 0 9"
  "covariance (gyroscopeNoiseModel_m initial_state) = I_3x3"
  by (simp_all add: initial_state_def AggregateImuReadings_init_def example_params_def
      Gaussian_Covariance_def)

lemma first_step_zeta:
  "zeta_m (integrateMeasurement so3_external measuredAcc measuredOmega 1 initial_state) =
     Vector9_of measuredOmega ((1 / 2) *\<^sub>R measuredAcc) measuredAcc"
  by (simp add: integrateMeasurement_fields initial_state_simps example_bias_def
      UpdateEstimate_so3_at_zero_rotation segment_zero)

lemma first_step_cov_block:
  "block r c (cov_m (integrateMeasurement so3_external measuredAcc measuredOmega 1 initial_state)) =
     mm (rows r (Matrix93_of I_3x3 Z_3x3 Z_3x3))
        (transpose_mat (rows c (Matrix93_of I_3x3 Z_3x3 Z_3x3)))
   + mm (mm (rows r (Matrix93_of Z_3x3 ((1 / 2) *\<^sub>R I_3x3) I_3x3)) (Matrix3_of 1 0 0  0 4 0  0 0 9))
        (transpose_mat (rows c (Matrix93_of Z_3x3 ((1 / 2) *\<^sub>R I_3x3) I_3x3)))"
proof -
  obtain A where J: "snd (UpdateEstimate so3_external (zeta_m initial_state)
             (measuredAcc - accelerometer (estimatedBias_m initial_state))
             (measuredOmega - gyroscope (estimatedBias_m initial_state)) 1 True True True)
      = (Some A,
         Some (Matrix93_of Z_3x3 ((0.5 * 1) *\<^sub>R (1 *\<^sub>R I_3x3)) (1 *\<^sub>R I_3x3)),
         Some (Matrix93_of (1 *\<^sub>R I_3x3) Z_3x3 Z_3x3))"
    by (simp add: initial_state_simps UpdateEstimate_so3_at_zero_rotation segment_zero)
  show ?thesis
    unfolding integrateMeasurement_cov[OF J]
    by (simp add: block_add block_mm_transpose rows_mm block_mm block_zero initial_state_simps
        mm_zero_left mm_zero_right I_3x3_simps transpose_zero)
qed

text \<open>
  \<^bold>\<open>Claim C4.\<close> For every call of \<^verbatim>\<open>integrateMeasurement\<close> with \<open>dt > 0\<close>, on an object
  whose noise models are those of its parameters: the bias is subtracted from the raw
  samples, \<open>zeta\<close> is replaced by the output of the mean propagator for the corrected
  measurements with all three Jacobians requested, the covariance becomes
  \<open>A cov A\<^sup>T + Bw (\<Sigma>_gyro / dt) Bw\<^sup>T + Ba (\<Sigma>_accel / dt) Ba\<^sup>T\<close> with the continuous-time
  covariances of the parameters, the count grows by one and the elapsed time by \<open>dt\<close>.
  Parameters, bias and noise models stay as they are.
\<close>

theorem integrateMeasurement_step:
  assumes "0 < dt" and "noise_from_params s"
  shows "let correctedAcc = measuredAcc - accelerometer (estimatedBias_m s);
             correctedOmega = measuredOmega - gyroscope (estimatedBias_m s);
             s' = integrateMeasurement E measuredAcc measuredOmega dt s
         in \<exists>A Ba Bw.
              UpdateEstimate E (zeta_m s) correctedAcc correctedOmega dt True True True
                = (zeta_m s', Some A, Some Ba, Some Bw) \<and>
              cov_m s' = mm (mm A (cov_m s)) (transpose_mat A)
                       + mm (mm Bw (gyroscopeCovariance (p_m s) /\<^sub>R dt)) (transpose_mat Bw)
                       + mm (mm Ba (accelerometerCovariance (p_m s) /\<^sub>R dt)) (transpose_mat Ba) \<and>
              k_m s' = k_m s + 1 \<and>
              deltaTij_m s' = deltaTij_m s + dt \<and>
              p_m s' = p_m s \<and> estimatedBias_m s' = estimatedBias_m s \<and>
              noise_from_params s'"
proof -
  let ?r = "UpdateEstimate E (zeta_m s) (measuredAcc - accelerometer (estimatedBias_m s))
              (measuredOmega - gyroscope (estimatedBias_m s)) dt True True True"
  obtain A Ba Bw where J: "snd ?r = (Some A, Some Ba, Some Bw)"
    using UpdateEstimate_all_requested by blast
  have r: "?r = (zeta_m (integrateMeasurement E measuredAcc measuredOmega dt s), Some A, Some Ba, Some Bw)"
    using J by (simp add: integrateMeasurement_fields prod_eq_iff)
  show ?thesis
    unfolding Let_def
    apply (rule exI[of _ A], rule exI[of _ Ba], rule exI[of _ Bw])
    using assms(2) r integrateMeasurement_cov[OF J]
    by (simp add: integrateMeasurement_fields noise_from_params_def)
qed

theorem integrateMeasurement_step_witness:
  "(0 :: real) < 1 \<and> noise_from_params initial_state \<and>
   k_m (integrateMeasurement so3_external (Vector3_of 0 0 9.81) 0 1 initial_state) = 1 \<and>
   deltaTij_m (integrateMeasurement so3_external (Vector3_of 0 0 9.81) 0 1 initial_state) = 1 \<and>
   noise_from_params (integrateMeasurement so3_external (Vector3_of 0 0 9.81) 0 1 initial_state)"
proof -
  have dt: "(0 :: real) < 1"
    by simp
  have n: "noise_from_params initial_state"
    by (simp add: noise_from_params_def initial_state_simps example_params_def)
  have "k_m (integrateMeasurement so3_external (Vector3_of 0 0 9.81) 0 1 initial_state)
          = k_m initial_state + 1 \<and>
        deltaTij_m (integrateMeasurement so3_external (Vector3_of 0 0 9.81) 0 1 initial_state)
          = deltaTij_m initial_state + 1 \<and>
        noise_from_params (integrateMeasurement so3_external (Vector3_of 0 0 9.81) 0 1 initial_state)"
    using integrateMeasurement_step[OF dt n, where E = so3_external
        and measuredAcc = "Vector3_of 0 0 9.81" and measuredOmega = 0]
    unfolding Let_def by blast
  then show ?thesis
    using n by (simp add: initial_state_simps)
qed

text \<open>
  Claim C2 asks that a call with \<open>dt \<le> 0\<close> signal an error and leave the object
  unmodified. The source has no check of \<open>dt\<close>: with \<open>dt = -1\<close> on the freshly constructed
  object the call returns an object that differs from the one it was given, with count 1
  and elapsed time \<open>-1\<close>.
\<close>

theorem integrateMeasurement_unchecked_counterexample:
  "(- 1 :: real) \<le> 0 \<and>
   integrateMeasurement so3_external 0 0 (- 1) initial_state \<noteq> initial_state \<and>
   k_m (integrateMeasurement so3_external 0 0 (- 1) initial_state) = 1 \<and>
   deltaTij_m (integrateMeasurement so3_external 0 0 (- 1) initial_state) = - 1"
proof -
  have k: "k_m (integrateMeasurement so3_external 0 0 (- 1) initial_state) = 1"
    by (simp add: integrateMeasurement_fields initial_state_simps)
  then have "k_m (integrateMeasurement so3_external 0 0 (- 1) initial_state) \<noteq> k_m initial_state"
    by (simp add: initial_state_simps)
  then have "integrateMeasurement so3_external 0 0 (- 1) initial_state \<noteq> initial_state"
    by metis
  then show ?thesis
    using k by (simp add: integrateMeasurement_fields initial_state_simps)
qed

text \<open>
  \<^bold>\<open>Claim C2, amended.\<close> \<^verbatim>\<open>integrateMeasurement\<close> does not validate \<open>dt\<close>. For every object
  and every \<open>dt\<close>, also \<open>dt \<le> 0\<close>, the call returns normally: \<open>zeta\<close> is replaced by the
  output of the mean propagator, the count grows by one and \<open>dt\<close> is added to the elapsed
  time, so that no call leaves the object unmodified.
\<close>

theorem integrateMeasurement_unchecked:
  "let s' = integrateMeasurement E measuredAcc measuredOmega dt s
   in zeta_m s' = fst (UpdateEstimate E (zeta_m s) (measuredAcc - accelerometer (estimatedBias_m s))
            (measuredOmega - gyroscope (estimatedBias_m s)) dt True True True) \<and>
      k_m s' = k_m s + 1 \<and> deltaTij_m s' = deltaTij_m s + dt \<and> s' \<noteq> s"
proof -
  have "k_m (integrateMeasurement E measuredAcc measuredOmega dt s) \<noteq> k_m s"
    by (simp add: integrateMeasurement_fields)
  then have "integrateMeasurement E measuredAcc measuredOmega dt s \<noteq> s"
    by metis
  then show ?thesis
    by (simp add: Let_def integrateMeasurement_fields)
qed

subsection \<open>A sample equal to the bias\<close>

lemma zero_motion_step:
  assumes "Rot3_rotate E (fst (Rot3_Expmap E (dR (zeta_m s)))) 0 = (0, 0, H2)"
  shows "zeta_m (integrateMeasurement E (accelerometer (estimatedBias_m s))
                    (gyroscope (estimatedBias_m s)) dt s) =
           Vector9_of (dR (zeta_m s)) (dP (zeta_m s) + dt *\<^sub>R dV (zeta_m s)) (dV (zeta_m s))"
    and "cov_m (integrateMeasurement E (accelerometer (estimatedBias_m s))
                    (gyroscope (estimatedBias_m s)) dt s) =
           mm (mm (Matrix9_of I_3x3 Z_3x3 Z_3x3  Z_3x3 I_3x3 (dt *\<^sub>R I_3x3)  Z_3x3 Z_3x3 I_3x3)
                  (cov_m s))
              (transpose_mat
                 (Matrix9_of I_3x3 Z_3x3 Z_3x3  Z_3x3 I_3x3 (dt *\<^sub>R I_3x3)  Z_3x3 Z_3x3 I_3x3))
         + noise_terms E (accelerometer (estimatedBias_m s)) (gyroscope (estimatedBias_m s)) dt s"
proof -
  note U = zero_motion_UpdateEstimate[OF assms, of dt]
  show "zeta_m (integrateMeasurement E (accelerometer (estimatedBias_m s))
                    (gyroscope (estimatedBias_m s)) dt s) =
           Vector9_of (dR (zeta_m s)) (dP (zeta_m s) + dt *\<^sub>R dV (zeta_m s)) (dV (zeta_m s))"
    by (simp add: integrateMeasurement_fields U)
  show "cov_m (integrateMeasurement E (accelerometer (estimatedBias_m s))
                    (gyroscope (estimatedBias_m s)) dt s) =
           mm (mm (Matrix9_of I_3x3 Z_3x3 Z_3x3  Z_3x3 I_3x3 (dt *\<^sub>R I_3x3)  Z_3x3 Z_3x3 I_3x3)
                  (cov_m s))
              (transpose_mat
                 (Matrix9_of I_3x3 Z_3x3 Z_3x3  Z_3x3 I_3x3 (dt *\<^sub>R I_3x3)  Z_3x3 Z_3x3 I_3x3))
         + noise_terms E (accelerometer (estimatedBias_m s)) (gyroscope (estimatedBias_m s)) dt s"
    by (rule noise_terms_cov) (simp add: U)
qed

text \<open>
  \<^bold>\<open>Claim C8, amended.\<close> For every \<open>dt > 0\<close> and every object at whose rotation increment
  the derivative \<open>D\<close> of the exponential map is invertible, integrating a sample equal to
  the bias leaves the rotation and velocity segments of \<open>zeta\<close> unchanged and advances the
  position segment by \<open>v dt\<close>, where \<open>v\<close> is the velocity segment. The covariance becomes
  \<open>F cov F\<^sup>T\<close> plus the discretised noise terms, where \<open>F\<close> is the identity with the
  position-by-velocity block \<open>dt I\<close>. The rotation action is assumed to map the zero
  vector to zero with a zero derivative in the rotation. Where \<open>D\<close> is singular the
  unchecked inverse of source line 65 has no real value and nothing is stated: the
  product of line 72 is then not the zero vector in floating point.
\<close>

theorem zero_motion_sample:
  assumes "0 < dt"
      and "determinant3 (snd (Rot3_Expmap E (dR (zeta_m s)))) \<noteq> 0"
      and "Rot3_rotate E (fst (Rot3_Expmap E (dR (zeta_m s)))) 0 = (0, 0, H2)"
  shows "let measuredAcc = accelerometer (estimatedBias_m s);
             measuredOmega = gyroscope (estimatedBias_m s);
             s' = integrateMeasurement E measuredAcc measuredOmega dt s;
             F = Matrix9_of I_3x3 Z_3x3 Z_3x3
                            Z_3x3 I_3x3 (dt *\<^sub>R I_3x3)
                            Z_3x3 Z_3x3 I_3x3
         in dR (zeta_m s') = dR (zeta_m s) \<and>
            dP (zeta_m s') = dP (zeta_m s) + dt *\<^sub>R dV (zeta_m s) \<and>
            dV (zeta_m s') = dV (zeta_m s) \<and>
            cov_m s' = mm (mm F (cov_m s)) (transpose_mat F)
                     + noise_terms E measuredAcc measuredOmega dt s"
  unfolding Let_def
  using zero_motion_step[OF assms(3), of dt]
  by (simp add: segment_Vector9_of)

theorem zero_motion_sample_witness:
  "(0 :: real) < 1 \<and>
   determinant3 (snd (Rot3_Expmap so3_external (dR (zeta_m moving_state)))) = 1 \<and>
   Rot3_rotate so3_external (fst (Rot3_Expmap so3_external (dR (zeta_m moving_state)))) 0
     = (0, 0, I_3x3) \<and>
   dP (zeta_m (integrateMeasurement so3_external (accelerometer (estimatedBias_m moving_state))
            (gyroscope (estimatedBias_m moving_state)) 1 moving_state))
     = dP (zeta_m moving_state) + 1 *\<^sub>R dV (zeta_m moving_state) \<and>
   dV (zeta_m (integrateMeasurement so3_external (accelerometer (estimatedBias_m moving_state))
            (gyroscope (estimatedBias_m moving_state)) 1 moving_state))
     = dV (zeta_m moving_state)"
proof -
  have dt: "(0 :: real) < 1"
    by simp
  have z: "dR (zeta_m moving_state) = 0"
    by (simp add: moving_state_def first_step_zeta segment_Vector9_of)
  have r: "Rot3_rotate so3_external (fst (Rot3_Expmap so3_external (dR (zeta_m moving_state)))) 0
     = (0, 0, I_3x3)"
    by (simp add: so3_external_def rotate_so3_zero z Expmap_so3_zero)
  have d: "determinant3 (snd (Rot3_Expmap so3_external (dR (zeta_m moving_state)))) = 1"
    by (simp add: so3_external_def z Expmap_so3_zero determinant3_def I_3x3_def Identity_def)
  then have d0: "determinant3 (snd (Rot3_Expmap so3_external (dR (zeta_m moving_state)))) \<noteq> 0"
    by simp
  show ?thesis
    using zero_motion_sample[OF dt d0 r] r d
    by (simp add: Let_def)
qed

text \<open>
  Claim C8 as stated (\<open>zeta\<close> unchanged, \<open>cov\<close> changed only by the noise terms) fails
  on the object that has integrated one unit acceleration along the first axis: its velocity
  segment is \<open>(1, 0, 0)\<close>, so a sample equal to the bias moves the first position
  coefficient from \<open>1/2\<close> to \<open>3/2\<close>, and the first position variance of \<open>F cov F\<^sup>T\<close> is
  \<open>9/4\<close> where that of \<open>cov\<close> is \<open>1/4\<close>.
\<close>

lemma zero_motion_moving_state:
  "coeff (zeta_m moving_state) (Seg3, X) = 1 / 2"
  "coeff (zeta_m (integrateMeasurement so3_external (accelerometer (estimatedBias_m moving_state))
            (gyroscope (estimatedBias_m moving_state)) 1 moving_state)) (Seg3, X) = 3 / 2"
proof -
  have z: "zeta_m moving_state = Vector9_of 0 ((1 / 2) *\<^sub>R Vector3_of 1 0 0) (Vector3_of 1 0 0)"
    by (simp add: moving_state_def first_step_zeta)
  show "coeff (zeta_m moving_state) (Seg3, X) = 1 / 2"
    by (simp add: z flip: coeff_segments) (simp add: segment_Vector9_of coeff_simps Vector3_of_coeffs)
  have r: "Rot3_rotate so3_external (fst (Rot3_Expmap so3_external (dR (zeta_m moving_state)))) 0
        = (0, 0, fst (Rot3_Expmap so3_external (dR (zeta_m moving_state))))"
    by (simp add: so3_external_def rotate_so3_zero)
  show "coeff (zeta_m (integrateMeasurement so3_external (accelerometer (estimatedBias_m moving_state))
            (gyroscope (estimatedBias_m moving_state)) 1 moving_state)) (Seg3, X) = 3 / 2"
    unfolding zero_motion_step(1)[OF r]
    by (simp add: z flip: coeff_segments) (simp add: segment_Vector9_of coeff_simps Vector3_of_coeffs)
qed

lemma zero_motion_moving_cov:
  "entry (cov_m moving_state) (Seg3, X) (Seg3, X) = 1 / 4"
  "entry (mm (mm (Matrix9_of I_3x3 Z_3x3 Z_3x3  Z_3x3 I_3x3 (1 *\<^sub>R I_3x3)  Z_3x3 Z_3x3 I_3x3)
                  (cov_m moving_state))
              (transpose_mat
                 (Matrix9_of I_3x3 Z_3x3 Z_3x3  Z_3x3 I_3x3 (1 *\<^sub>R I_3x3)  Z_3x3 Z_3x3 I_3x3)))
      (Seg3, X) (Seg3, X) = 9 / 4"
  unfolding entry_block moving_state_def
  by (simp_all add: block_mm block_transpose block_Matrix9_of first_step_cov_block rows_Matrix93_of
      I_3x3_simps Z_3x3_def mm_zero_left mm_zero_right transpose_zero mm_scaleR_left
      mm_scaleR_right transpose_scaleR entry_simps Matrix3_of_entries)

theorem zero_motion_changes_state:
  "zeta_m (integrateMeasurement so3_external (accelerometer (estimatedBias_m moving_state))
            (gyroscope (estimatedBias_m moving_state)) 1 moving_state) \<noteq> zeta_m moving_state \<and>
   cov_m (integrateMeasurement so3_external (accelerometer (estimatedBias_m moving_state))
            (gyroscope (estimatedBias_m moving_state)) 1 moving_state) \<noteq>
     cov_m moving_state
     + noise_terms so3_external (accelerometer (estimatedBias_m moving_state))
         (gyroscope (estimatedBias_m moving_state)) 1 moving_state"
proof
  let ?s = "integrateMeasurement so3_external (accelerometer (estimatedBias_m moving_state))
            (gyroscope (estimatedBias_m moving_state)) 1 moving_state"
  have "coeff (zeta_m ?s) (Seg3, X) \<noteq> coeff (zeta_m moving_state) (Seg3, X)"
    by (simp add: zero_motion_moving_state)
  then show "zeta_m ?s \<noteq> zeta_m moving_state"
    by metis
  have r: "Rot3_rotate so3_external (fst (Rot3_Expmap so3_external (dR (zeta_m moving_state)))) 0
        = (0, 0, fst (Rot3_Expmap so3_external (dR (zeta_m moving_state))))"
    by (simp add: so3_external_def rotate_so3_zero)
  have "entry (mm (mm (Matrix9_of I_3x3 Z_3x3 Z_3x3  Z_3x3 I_3x3 (1 *\<^sub>R I_3x3)  Z_3x3 Z_3x3 I_3x3)
                  (cov_m moving_state))
              (transpose_mat
                 (Matrix9_of I_3x3 Z_3x3 Z_3x3  Z_3x3 I_3x3 (1 *\<^sub>R I_3x3)  Z_3x3 Z_3x3 I_3x3)))
      (Seg3, X) (Seg3, X) \<noteq> entry (cov_m moving_state) (Seg3, X) (Seg3, X)"
    unfolding zero_motion_moving_cov by simp
  then have "mm (mm (Matrix9_of I_3x3 Z_3x3 Z_3x3  Z_3x3 I_3x3 (1 *\<^sub>R I_3x3)  Z_3x3 Z_3x3 I_3x3)
                  (cov_m moving_state))
              (transpose_mat
                 (Matrix9_of I_3x3 Z_3x3 Z_3x3  Z_3x3 I_3x3 (1 *\<^sub>R I_3x3)  Z_3x3 Z_3x3 I_3x3))
      \<noteq> cov_m moving_state"
    by metis
  then show "cov_m ?s \<noteq> cov_m moving_state
     + noise_terms so3_external (accelerometer (estimatedBias_m moving_state))
         (gyroscope (estimatedBias_m moving_state)) 1 moving_state"
    unfolding zero_motion_step(2)[OF r] by simp
qed

subsection \<open>The covariance recursion in exact arithmetic\<close>

lemma integrateMeasurement_covariance_invariant:
  assumes dt: "0 < dt"
    and a: "symmetric (covariance (accelerometerNoiseModel_m s))"
           "positive_semidefinite (covariance (accelerometerNoiseModel_m s))"
    and g: "symmetric (covariance (gyroscopeNoiseModel_m s))"
           "positive_semidefinite (covariance (gyroscopeNoiseModel_m s))"
    and c: "symmetric (cov_m s)" "positive_semidefinite (cov_m s)"
  shows "symmetric (cov_m (integrateMeasurement E measuredAcc measuredOmega dt s)) \<and>
         positive_semidefinite (cov_m (integrateMeasurement E measuredAcc measuredOmega dt s))"
proof -
  obtain A Ba Bw where J:
    "snd (UpdateEstimate E (zeta_m s) (measuredAcc - accelerometer (estimatedBias_m s))
            (measuredOmega - gyroscope (estimatedBias_m s)) dt True True True)
       = (Some A, Some Ba, Some Bw)"
    using UpdateEstimate_all_requested by blast
  have r: "0 \<le> inverse dt"
    using dt by simp
  show ?thesis
    unfolding integrateMeasurement_cov[OF J]
    using a g c r
    by (simp add: symmetric_add symmetric_congruence symmetric_scaleR
        positive_semidefinite_add positive_semidefinite_congruence positive_semidefinite_scaleR)
qed

lemma integrateAll_covariance_invariant:
  assumes "\<forall>(measuredAcc, measuredOmega, dt) \<in> set samples. 0 < dt"
    and "symmetric (covariance (accelerometerNoiseModel_m s))"
        "positive_semidefinite (covariance (accelerometerNoiseModel_m s))"
    and "symmetric (covariance (gyroscopeNoiseModel_m s))"
        "positive_semidefinite (covariance (gyroscopeNoiseModel_m s))"
    and "symmetric (cov_m s)" "positive_semidefinite (cov_m s)"
  shows "symmetric (cov_m (integrateAll E samples s)) \<and>
         positive_semidefinite (cov_m (integrateAll E samples s))"
  using assms
proof (induction samples arbitrary: s)
  case Nil
  then show ?case by simp
next
  case (Cons x samples)
  obtain measuredAcc measuredOmega dt where x: "x = (measuredAcc, measuredOmega, dt)"
    by (cases x) auto
  let ?s = "integrateMeasurement E measuredAcc measuredOmega dt s"
  have dt: "0 < dt"
    using Cons.prems(1) x by simp
  have step: "symmetric (cov_m ?s) \<and> positive_semidefinite (cov_m ?s)"
    using integrateMeasurement_covariance_invariant[OF dt Cons.prems(2-7)] .
  have "symmetric (cov_m (integrateAll E samples ?s)) \<and>
        positive_semidefinite (cov_m (integrateAll E samples ?s))"
    using Cons.prems step
    by (intro Cons.IH) (simp_all add: integrateMeasurement_fields)
  then show ?case
    by (simp add: x)
qed

text \<open>
  Claim C7 (the covariance stays symmetric and positive semi-definite after every call)
  is a statement about the \<^verbatim>\<open>double\<close> values the source computes, and this file cannot
  state it: it models \<^verbatim>\<open>double\<close> by \<^typ>\<open>real\<close>. The lemma below is the exact-arithmetic
  content of the recursion \<open>A cov A\<^sup>T + Bw (\<Sigma>_gyro / dt) Bw\<^sup>T + Ba (\<Sigma>_accel / dt) Ba\<^sup>T\<close> only:
  over the reals, with real matrices \<open>A\<close>, \<open>Bw\<close>, \<open>Ba\<close>, a congruence and a sum keep a
  matrix symmetric and positive semi-definite. It does not carry over to the source.
  There the products are rounded, and \<open>Bw\<close> holds the unchecked inverse of source line 65,
  which has no real value where the derivative of the exponential map is singular (as it
  is after a full turn, lemma \<open>full_turn_singular\<close> below).
\<close>

lemma covariance_recursion_exact_arithmetic:
  assumes "symmetric (accelerometerCovariance p)"
      and "positive_semidefinite (accelerometerCovariance p)"
      and "symmetric (gyroscopeCovariance p)"
      and "positive_semidefinite (gyroscopeCovariance p)"
      and "\<forall>(measuredAcc, measuredOmega, dt) \<in> set samples. 0 < dt"
  shows "symmetric (cov_m (integrateAll E (take n samples) (AggregateImuReadings_init p b))) \<and>
         positive_semidefinite
           (cov_m (integrateAll E (take n samples) (AggregateImuReadings_init p b)))"
proof -
  have "\<forall>(measuredAcc, measuredOmega, dt) \<in> set (take n samples). 0 < dt"
    using assms(5) by (auto dest: in_set_takeD)
  then show ?thesis
    using assms(1-4)
    by (intro integrateAll_covariance_invariant)
       (simp_all add: AggregateImuReadings_init_def Gaussian_Covariance_def
          symmetric_zero positive_semidefinite_zero)
qed

subsection \<open>A singular derivative of the exponential map\<close>

lemma full_turn_zeta:
  "zeta_m full_turn_state = Vector9_of (Vector3_of 0 0 (2 * pi)) 0 0"
  by (simp add: full_turn_state_def first_step_zeta)

lemma full_turn_singular:
  "determinant3 (snd (Rot3_Expmap so3_external (dR (zeta_m full_turn_state)))) = 0"
  by (simp add: full_turn_zeta segment_Vector9_of so3_external_def Expmap_so3_full_turn
      determinant3_def Matrix3_of_entries)

lemma full_turn_velocity:
  "dV (fst (UpdateEstimate so3_external (zeta_m full_turn_state)
         (Vector3_of 0 0 1) (Vector3_of 0 0 1) 1 A Ba Bw)) = Vector3_of 0 0 1"
proof (rule vec_eqI)
  fix i
  show "coeff (dV (fst (UpdateEstimate so3_external (zeta_m full_turn_state)
         (Vector3_of 0 0 1) (Vector3_of 0 0 1) 1 A Ba Bw))) i = coeff (Vector3_of 0 0 1) i"
    by (cases i)
       (simp_all add: UpdateEstimate_def Let_def split_def segment_Vector9_of full_turn_zeta
          so3_external_def Expmap_so3_full_turn rotate_so3_def coeff_simps coeff_mv sum_axis
          Matrix3_of_entries Vector3_of_coeffs)
qed

text \<open>
  Claim C9 asks that a (near-)singular derivative of the exponential map surface as a
  failure. The source inverts the derivative with \<^verbatim>\<open>Matrix3::inverse\<close> unchecked and has
  no failure path. After a full turn about the third axis the derivative has determinant
  zero; the next step of the mean propagator nevertheless returns a vector (its velocity
  segment is the rotated impulse), and \<^verbatim>\<open>integrateMeasurement\<close> completes and counts the
  sample.
\<close>

theorem singular_derivative_not_reported:
  "determinant3 (snd (Rot3_Expmap so3_external (dR (zeta_m full_turn_state)))) = 0 \<and>
   dV (fst (UpdateEstimate so3_external (zeta_m full_turn_state)
         (Vector3_of 0 0 1) (Vector3_of 0 0 1) 1 True True True)) = Vector3_of 0 0 1 \<and>
   k_m (integrateMeasurement so3_external (Vector3_of 0 0 1) (Vector3_of 0 0 1) 1 full_turn_state)
     = 2"
proof -
  have "k_m (integrateMeasurement so3_external (Vector3_of 0 0 1) (Vector3_of 0 0 1) 1
          full_turn_state) = 2"
    by (simp add: integrateMeasurement_fields full_turn_state_def initial_state_simps)
  then show ?thesis
    using full_turn_singular full_turn_velocity by blast
qed

text \<open>
  \<^bold>\<open>Claim C9, amended.\<close> When the derivative \<open>D\<close> of the exponential map at the current
  rotation increment is singular, the mean propagator signals nothing. It returns the
  vector with the usual position and velocity segments and with the rotation segment
  \<open>theta + M (omega dt)\<close>, and it writes \<open>M dt\<close> into \<open>Bw\<close> when requested, where \<open>M\<close> is
  whatever the unchecked \<^verbatim>\<open>Matrix3::inverse\<close> yields for \<open>D\<close>.
\<close>

theorem UpdateEstimate_singular_derivative:
  assumes "determinant3 (snd (Rot3_Expmap E (dR zeta))) = 0"
  shows "let (R, D) = Rot3_Expmap E (dR zeta);
             Radt = fst (Rot3_rotate E R (dt *\<^sub>R correctedAcc));
             r = UpdateEstimate E zeta correctedAcc correctedOmega dt A Ba Bw
         in dR (fst r) = dR zeta + mv (Matrix3_inverse E D) (dt *\<^sub>R correctedOmega) \<and>
            dP (fst r) = dP zeta + dt *\<^sub>R dV zeta + (0.5 * dt) *\<^sub>R Radt \<and>
            dV (fst r) = dV zeta + Radt \<and>
            snd (snd (snd r)) =
              (if Bw then Some (Matrix93_of (dt *\<^sub>R Matrix3_inverse E D) Z_3x3 Z_3x3) else None)"
  by (simp add: UpdateEstimate_def Let_def split_def segment_Vector9_of)

theorem UpdateEstimate_singular_derivative_witness:
  "determinant3 (snd (Rot3_Expmap so3_external (dR (zeta_m full_turn_state)))) = 0 \<and>
   dV (fst (UpdateEstimate so3_external (zeta_m full_turn_state)
         (Vector3_of 0 0 1) (Vector3_of 0 0 1) 1 False False True))
     = dV (zeta_m full_turn_state)
       + fst (Rot3_rotate so3_external (fst (Rot3_Expmap so3_external (dR (zeta_m full_turn_state))))
               (1 *\<^sub>R Vector3_of 0 0 1)) \<and>
   snd (snd (snd (UpdateEstimate so3_external (zeta_m full_turn_state)
         (Vector3_of 0 0 1) (Vector3_of 0 0 1) 1 False False True)))
     = Some (Matrix93_of
         (1 *\<^sub>R Matrix3_inverse so3_external
                  (snd (Rot3_Expmap so3_external (dR (zeta_m full_turn_state)))))
         Z_3x3 Z_3x3)"
  using UpdateEstimate_singular_derivative[OF full_turn_singular,
      where correctedAcc = "Vector3_of 0 0 1" and correctedOmega = "Vector3_of 0 0 1"
        and dt = 1 and A = False and Ba = False and Bw = True]
    full_turn_singular
  by (simp add: Let_def split_def)

section \<open>The predictor\<close>

text \<open>
  \<^bold>\<open>Claim C5.\<close> \<^verbatim>\<open>predict\<close> adds \<open>R\<^sup>T (v_i T + 0.5 T\<^sup>2 g)\<close> to the position segment of
  \<open>zeta\<close> and \<open>R\<^sup>T T g\<close> to its velocity segment, where \<open>R\<close> is the initial attitude, \<open>v_i\<close>
  the initial velocity, \<open>T\<close> the elapsed time and \<open>g\<close> the gravity of the parameters, and
  returns the retraction of the initial state by the corrected vector. With zero initial
  velocity and zero gravity it returns the retraction by \<open>zeta\<close> itself.
\<close>

theorem predict_correction:
  "(let T = deltaTij_m s; g = n_gravity (p_m s);
        Rt = transpose_mat (attitude state_i); v_i = velocity state_i;
        zeta = zeta_m s
    in predict E s state_i bias_i =
         NavState_retract E state_i
           (Vector9_of (dR zeta)
                       (dP zeta + mv Rt (T *\<^sub>R v_i + (0.5 * T\<^sup>2) *\<^sub>R g))
                       (dV zeta + mv Rt (T *\<^sub>R g)))) \<and>
   (velocity state_i = 0 \<and> n_gravity (p_m s) = 0 \<longrightarrow>
      predict E s state_i bias_i = NavState_retract E state_i (zeta_m s))"
proof -
  have *: "predict E s state_i bias_i =
         NavState_retract E state_i
           (Vector9_of (dR (zeta_m s))
              (dP (zeta_m s) + mv (transpose_mat (attitude state_i))
                 (deltaTij_m s *\<^sub>R velocity state_i + (0.5 * (deltaTij_m s)\<^sup>2) *\<^sub>R n_gravity (p_m s)))
              (dV (zeta_m s) + mv (transpose_mat (attitude state_i)) (deltaTij_m s *\<^sub>R n_gravity (p_m s))))"
    by (simp add: predict_def Let_def set_segments_Vector9_of dV_def dP_def set_segment_simps
        power2_eq_square)
  show ?thesis
    unfolding Let_def
    by (rule conjI, rule *) (simp add: * mv_zero Vector9_eq_segments)
qed

theorem predict_correction_witness:
  "velocity level_state = 0 \<and>
   n_gravity (p_m (AggregateImuReadings_init free_fall_params example_bias)) = 0 \<and>
   predict so3_external (AggregateImuReadings_init free_fall_params example_bias)
       level_state example_bias =
     NavState_retract so3_external level_state
       (zeta_m (AggregateImuReadings_init free_fall_params example_bias))"
proof -
  have v: "velocity level_state = 0"
    by (simp add: level_state_def)
  have g: "n_gravity (p_m (AggregateImuReadings_init free_fall_params example_bias)) = 0"
    by (simp add: AggregateImuReadings_init_def free_fall_params_def)
  show ?thesis
    using predict_correction[where s = "AggregateImuReadings_init free_fall_params example_bias"
        and E = so3_external and state_i = level_state and bias_i = example_bias] v g
    by blast
qed

section \<open>The covariance exposed to consumers\<close>

lemma preintMeasCov_is_cov: "preintMeasCov E s = cov_m s"
  by (simp add: preintMeasCov_def noiseModel_def Gaussian_Covariance_def)

lemma noiseModel_HcH_block_position:
  "block Seg3 Seg3 (noiseModel_HcH E s) =
     mm (mm (transpose_mat (fst (Rot3_Expmap E (theta s)))) (block Seg3 Seg3 (cov_m s)))
        (fst (Rot3_Expmap E (theta s)))"
  by (simp add: noiseModel_HcH_def noiseModel_H_def Let_def split_def block_mm block_transpose
      block_Matrix9_of Z_3x3_def mm_zero_left mm_zero_right transpose_zero transpose_transpose)

lemma quarter_turn_theta: "theta quarter_turn_state = Vector3_of 0 0 (pi / 2)"
  by (simp add: theta_def quarter_turn_state_def first_step_zeta segment_Vector9_of)

lemma quarter_turn_cov:
  "block Seg3 Seg3 (cov_m quarter_turn_state) = (1 / 4) *\<^sub>R Matrix3_of 1 0 0  0 4 0  0 0 9"
  by (simp add: quarter_turn_state_def first_step_cov_block rows_Matrix93_of Z_3x3_def
      I_3x3_simps mm_zero_left mm_zero_right transpose_zero mm_scaleR_left mm_scaleR_right
      transpose_scaleR)

text \<open>
  \<^bold>\<open>Claim C1\<close> says that \<^verbatim>\<open>preintMeasCov\<close> returns the retracted covariance \<open>H cov H\<^sup>T\<close>.
  The source computes \<open>H\<close> and \<open>HcH\<close> and then returns the model of \<^verbatim>\<open>cov_\<close> itself. On
  the object that has integrated a quarter turn about the third axis, the first position
  variance returned by \<^verbatim>\<open>preintMeasCov\<close> is \<open>1/4\<close>, while that of \<open>H cov H\<^sup>T\<close> is \<open>1\<close>.
\<close>

theorem preintMeasCov_not_retracted:
  "entry (preintMeasCov so3_external quarter_turn_state) (Seg3, X) (Seg3, X) = 1 / 4 \<and>
   entry (noiseModel_HcH so3_external quarter_turn_state) (Seg3, X) (Seg3, X) = 1"
proof -
  have pi2: "(0::real) < pi / 2"
    by simp
  have R: "fst (Rot3_Expmap so3_external (theta quarter_turn_state)) =
        Matrix3_of 0 (- 1) 0  1 0 0  0 0 1"
    by (simp add: so3_external_def quarter_turn_theta Expmap_so3_about_Z[OF pi2])
  show ?thesis
    unfolding preintMeasCov_is_cov entry_block noiseModel_HcH_block_position R quarter_turn_cov
    by (simp add: entry_mm entry_transpose entry_simps sum_axis Matrix3_of_entries)
qed

end
